theory Spec2Isabelle
  imports Complex_Main
begin

section \<open>Data model\<close>

text \<open>
  A numpy array is its shape together with its cells in row-major order. The cells are
  opaque to the task manager: it only reads \<open>shape\<close> and calls \<open>ravel\<close>.
\<close>

datatype cell = Num int | Txt string | Missing

record ndarray =
  shape :: "nat list"
  flat :: "cell list"

text \<open>\<^verbatim>\<open>y.ravel()\<close>: the same cells as a 1-D array of \<open>size\<close> entries.\<close>

definition ravel :: "ndarray \<Rightarrow> ndarray" where
  "ravel a = \<lparr>shape = [prod_list (shape a)], flat = flat a\<rparr>"

text \<open>
  \<^verbatim>\<open>a.shape[i]\<close>: indexing the shape tuple past its length raises IndexError.
\<close>

datatype error =
    ValueError
  | IndexError
  | UnboundLocalError
  | KeyError
  | TypeError
  | ConfigurationError
  | Raised string

definition shape_at :: "ndarray \<Rightarrow> nat \<Rightarrow> error + nat" where
  "shape_at a i = (if i < length (shape a) then Inr (shape a ! i) else Inl IndexError)"

text \<open>
  \<^verbatim>\<open>data: Union[str, npt.NDArray, pd.DataFrame]\<close>: a path, an array, or a data frame
  (its column names and its values).
\<close>

datatype table = Array ndarray | Frame "string list" ndarray

datatype dataset = Path string | Table table

datatype column = ColName string | ColIndex int

text \<open>
  The attributes of a \<^verbatim>\<open>TabularTaskManager\<close>. \<open>data\<close> is \<^verbatim>\<open>self._data\<close>, the
  prepared triple \<open>(X, y, mask)\<close>; \<open>pipeline\<close> is \<^verbatim>\<open>self._pipeline\<close>, a reference
  (an address of the object store) to the one pipeline object the manager owns.
\<close>

record manager =
  task :: string
  features :: "column list option"
  target :: "column option"
  data :: "ndarray \<times> ndarray \<times> bool list"
  pipeline :: nat

text \<open>
  The environment variable \<^verbatim>\<open>FALCON_VERBOSITYLEVEL\<close>, as \<^verbatim>\<open>int(os.getenv(..., "1"))\<close>
  sees it: not set, a text that \<^verbatim>\<open>int\<close> parses to a number, or a text it rejects.
\<close>

datatype envval = Unset | IntText int | Garbage

text \<open>
  Every call the task manager makes to a collaborator, and every line it prints, in the
  order they happen. Pipeline objects are named by their address.
\<close>

datatype call =
    Falcon_print string
  | Print string
  | Print_score real
  | Set_verbosity_level int
  | Read_data string
  | Split_features table "column list option" "column option"
  | Clean_data_split ndarray ndarray
  | Get_cat_mask ndarray
  | Tab_cv_score nat ndarray ndarray string
  | Train_test_split ndarray ndarray real
  | Deepcopy nat nat
  | Fit nat ndarray ndarray
  | Predict nat ndarray
  | Calculate_model_score ndarray ndarray string
  | Print_classification_report ndarray ndarray
  | Print_regression_report ndarray ndarray

text \<open>
  The state a method runs in: the manager object (\<open>self\<close>), the store of pipeline objects
  (\<open>'p\<close> is the state of one pipeline object, a black box), the process-wide verbosity
  level, and the calls made so far. An address is an index into the store; a reference
  held by a live object always points into it, which the theorems that depend on it
  state as \<open>pipeline (self \<sigma>) < length (heap \<sigma>)\<close>.
\<close>

record 'p state =
  self :: manager
  heap :: "'p list"
  verbosity :: envval
  trace :: "call list"

text \<open>
  The collaborators, which are outside this repository's two files: the helpers of
  \<^verbatim>\<open>falcon.tabular.utils\<close>, scikit-learn's \<^verbatim>\<open>train_test_split\<close>, numpy's \<^verbatim>\<open>mean\<close>, and the
  \<^verbatim>\<open>fit\<close> and \<^verbatim>\<open>predict\<close> methods of the pipeline class. Each may raise (\<open>Inl\<close>).
  The scorers and \<^verbatim>\<open>predict\<close> read the pipeline object; \<^verbatim>\<open>fit\<close> returns its new state.
\<close>

record 'p collab =
  read_data :: "string \<Rightarrow> error + table"
  split_features :: "table \<Rightarrow> column list option \<Rightarrow> column option \<Rightarrow> error + ndarray \<times> ndarray"
  clean_data_split :: "ndarray \<Rightarrow> ndarray \<Rightarrow> error + ndarray \<times> ndarray"
  get_cat_mask :: "ndarray \<Rightarrow> error + bool list"
  tab_cv_score :: "'p \<Rightarrow> ndarray \<Rightarrow> ndarray \<Rightarrow> string \<Rightarrow> error + real list"
  np_mean :: "real list \<Rightarrow> real"
  train_test_split ::
    "ndarray \<Rightarrow> ndarray \<Rightarrow> real \<Rightarrow> error + ndarray \<times> ndarray \<times> ndarray \<times> ndarray"
  calculate_model_score :: "ndarray \<Rightarrow> ndarray \<Rightarrow> string \<Rightarrow> error + real"
  pipe_fit :: "'p \<Rightarrow> ndarray \<Rightarrow> ndarray \<Rightarrow> error + 'p"
  pipe_predict :: "'p \<Rightarrow> ndarray \<Rightarrow> error + ndarray"

section \<open>Sequencing with exceptions\<close>

text \<open>
  A method is a function from the state to its outcome and the state it leaves behind.
  An exception (\<open>Inl\<close>) skips the rest of the method and keeps the state as it was when
  the exception was raised.
\<close>

type_synonym ('a, 'p) prog = "'p state \<Rightarrow> (error + 'a) \<times> 'p state"

definition returnS :: "'a \<Rightarrow> ('a, 'p) prog" where
  "returnS x \<sigma> = (Inr x, \<sigma>)"

definition raiseS :: "error \<Rightarrow> ('a, 'p) prog" where
  "raiseS e \<sigma> = (Inl e, \<sigma>)"

definition liftS :: "error + 'a \<Rightarrow> ('a, 'p) prog" where
  "liftS r \<sigma> = (r, \<sigma>)"

definition andThen :: "('a, 'p) prog \<Rightarrow> ('a \<Rightarrow> ('b, 'p) prog) \<Rightarrow> ('b, 'p) prog" where
  "andThen m f \<sigma> = (case m \<sigma> of (Inl e, \<sigma>') \<Rightarrow> (Inl e, \<sigma>') | (Inr x, \<sigma>') \<Rightarrow> f x \<sigma>')"

text \<open>A call to a collaborator: it is recorded, then it returns or raises.\<close>

definition invoke :: "call \<Rightarrow> error + 'a \<Rightarrow> ('a, 'p) prog" where
  "invoke ev r \<sigma> = (r, \<sigma>\<lparr>trace := trace \<sigma> @ [ev]\<rparr>)"

text \<open>The calls a method made, given the state before and the state after.\<close>

definition calls_since :: "'p state \<Rightarrow> 'p state \<Rightarrow> call list" where
  "calls_since \<sigma> \<sigma>' = drop (length (trace \<sigma>)) (trace \<sigma>')"

section \<open>The task manager's methods\<close>

subsection \<open>\<^verbatim>\<open>_prepare_data\<close>\<close>

text \<open>
  \<^verbatim>\<open>
  if isinstance(data, str):
      data = read_data(data)
  X, y = split_features(data, features=self.features, target=self.target)
  X, y = clean_data_split(X, y)
  if training: mask = get_cat_mask(X)
  else: mask = []
  if len(y.shape) == 2:
      y = y.ravel()
  return X, y, mask
  \<close>
\<close>

definition prepare_data ::
  "'p collab \<Rightarrow> dataset \<Rightarrow> bool \<Rightarrow> (ndarray \<times> ndarray \<times> bool list, 'p) prog" where
  "prepare_data c d training =
     andThen (case d of Path p \<Rightarrow> invoke (Read_data p) (read_data c p) | Table t \<Rightarrow> returnS t)
       (\<lambda>tbl.
     andThen (\<lambda>\<sigma>. invoke (Split_features tbl (features (self \<sigma>)) (target (self \<sigma>)))
                     (split_features c tbl (features (self \<sigma>)) (target (self \<sigma>))) \<sigma>)
       (\<lambda>(X0, y0).
     andThen (invoke (Clean_data_split X0 y0) (clean_data_split c X0 y0))
       (\<lambda>(X, y).
     andThen (if training then invoke (Get_cat_mask X) (get_cat_mask c X) else returnS [])
       (\<lambda>mask.
     returnS (X, if length (shape y) = 2 then ravel y else y, mask)))))"

subsection \<open>\<^verbatim>\<open>predict\<close>\<close>

text \<open>\<^verbatim>\<open>np.asarray(data, dtype=np.object_)\<close> of a data frame is the array of its values.\<close>

fun np_asarray :: "table \<Rightarrow> ndarray" where
  "np_asarray (Array a) = a"
| "np_asarray (Frame cols a) = a"

text \<open>
  \<^verbatim>\<open>
  if isinstance(data, str):
      data = read_data(data)
  if not isinstance(data, np.ndarray):
      data = np.asarray(data, dtype=np.object_)
  return self._pipeline.predict(data)
  \<close>
\<close>

definition predict :: "'p collab \<Rightarrow> dataset \<Rightarrow> (ndarray, 'p) prog" where
  "predict c d =
     andThen (case d of Path p \<Rightarrow> invoke (Read_data p) (read_data c p) | Table t \<Rightarrow> returnS t)
       (\<lambda>tbl. \<lambda>\<sigma>.
          invoke (Predict (pipeline (self \<sigma>)) (np_asarray tbl))
            (pipe_predict c (heap \<sigma> ! pipeline (self \<sigma>)) (np_asarray tbl)) \<sigma>)"

subsection \<open>\<^verbatim>\<open>evaluate\<close>\<close>

text \<open>
  \<^verbatim>\<open>
  print("The evaluation report will be provided here")
  X, y, _ = self._prepare_data(test_data, training = False)
  y_hat = self.predict(X)
  if self.task == "tabular_classification":
      print_classification_report(y, y_hat)
  else:
      print_regression_report(y, y_hat)
  \<close>
\<close>

definition evaluate :: "'p collab \<Rightarrow> dataset \<Rightarrow> (unit, 'p) prog" where
  "evaluate c test_data =
     andThen (invoke (Print ''The evaluation report will be provided here'') (Inr ()))
       (\<lambda>_.
     andThen (prepare_data c test_data False)
       (\<lambda>(X, y, _).
     andThen (predict c (Table (Array X)))
       (\<lambda>y_hat. \<lambda>\<sigma>.
          (if task (self \<sigma>) = ''tabular_classification''
           then invoke (Print_classification_report y y_hat) (Inr ())
           else invoke (Print_regression_report y y_hat) (Inr ())) \<sigma>)))"

subsection \<open>\<^verbatim>\<open>train\<close>\<close>

text \<open>\<^verbatim>\<open>print_\<close> of \<^verbatim>\<open>falcon.utils\<close>, the printing that depends on the verbosity level.\<close>

definition falcon_print :: "string \<Rightarrow> (unit, 'p) prog" where
  "falcon_print msg = invoke (Falcon_print msg) (Inr ())"

text \<open>\<^verbatim>\<open>int(os.getenv("FALCON_VERBOSITYLEVEL", "1"))\<close>\<close>

fun level_of :: "envval \<Rightarrow> error + int" where
  "level_of Unset = Inr 1"
| "level_of (IntText n) = Inr n"
| "level_of Garbage = Inl ValueError"

definition getenv_verbosity :: "(int, 'p) prog" where
  "getenv_verbosity \<sigma> = (level_of (verbosity \<sigma>), \<sigma>)"

text \<open>
  Modelled from the spec: \<^verbatim>\<open>set_verbosity_level\<close> of \<^verbatim>\<open>falcon.utils\<close> is not among the
  source files. The spec describes one process-wide verbosity level, readable and
  writable; the writer stores the level where \<open>getenv_verbosity\<close> reads it.
\<close>

definition set_verbosity_level :: "int \<Rightarrow> (unit, 'p) prog" where
  "set_verbosity_level l \<sigma> =
     (Inr (), \<sigma>\<lparr>verbosity := IntText l, trace := trace \<sigma> @ [Set_verbosity_level l]\<rparr>)"

text \<open>
  \<^verbatim>\<open>deepcopy(self._pipeline)\<close>: a new object with the same state, at a fresh address.
\<close>

definition deepcopy :: "nat \<Rightarrow> (nat, 'p) prog" where
  "deepcopy a \<sigma> =
     (Inr (length (heap \<sigma>)),
      \<sigma>\<lparr>heap := heap \<sigma> @ [heap \<sigma> ! a],
        trace := trace \<sigma> @ [Deepcopy a (length (heap \<sigma>))]\<rparr>)"

text \<open>
  \<^verbatim>\<open>obj.fit(X, y)\<close> mutates the object at the address it is called on; when it raises,
  the object is left as it was. \<^verbatim>\<open>obj.predict(X)\<close> reads it.
\<close>

definition fit :: "'p collab \<Rightarrow> nat \<Rightarrow> ndarray \<Rightarrow> ndarray \<Rightarrow> (unit, 'p) prog" where
  "fit c a X y \<sigma> =
     (case pipe_fit c (heap \<sigma> ! a) X y of
        Inl e \<Rightarrow> (Inl e, \<sigma>\<lparr>trace := trace \<sigma> @ [Fit a X y]\<rparr>)
      | Inr P \<Rightarrow> (Inr (), \<sigma>\<lparr>heap := (heap \<sigma>)[a := P], trace := trace \<sigma> @ [Fit a X y]\<rparr>))"

definition predict_on :: "'p collab \<Rightarrow> nat \<Rightarrow> ndarray \<Rightarrow> (ndarray, 'p) prog" where
  "predict_on c a X \<sigma> = invoke (Predict a X) (pipe_predict c (heap \<sigma> ! a) X) \<sigma>"

text \<open>
  The condition of the pre-evaluation branch,
  \<^verbatim>\<open>self._data[0].shape[0] * self._data[0].shape[1] < 50000 or self._data[0].shape[0] < 500\<close>,
  evaluated left to right.
\<close>

definition cv_condition :: "ndarray \<Rightarrow> error + bool" where
  "cv_condition X =
     (case shape_at X 0 of
        Inl e \<Rightarrow> Inl e
      | Inr r0 \<Rightarrow>
          (case shape_at X 1 of
             Inl e \<Rightarrow> Inl e
           | Inr r1 \<Rightarrow>
               if r0 * r1 < 50000 then Inr True
               else (case shape_at X 0 of Inl e \<Rightarrow> Inl e | Inr r \<Rightarrow> Inr (r < 500))))"

text \<open>
  The first arm:
  \<^verbatim>\<open>
  score = tab_cv_score(self._pipeline, self._data[0], self._data[1], self.task)
  avg_score = float(np.mean(score))
  \<close>
\<close>

definition cv_branch :: "'p collab \<Rightarrow> (real, 'p) prog" where
  "cv_branch c \<sigma> =
     (case data (self \<sigma>) of (X, y, _) \<Rightarrow>
        andThen (invoke (Tab_cv_score (pipeline (self \<sigma>)) X y (task (self \<sigma>)))
                   (tab_cv_score c (heap \<sigma> ! pipeline (self \<sigma>)) X y (task (self \<sigma>))))
          (\<lambda>score. returnS (np_mean c score)) \<sigma>)"

text \<open>
  The second arm:
  \<^verbatim>\<open>
  X_train, X_test, y_train, y_test = train_test_split(
      self._data[0], self._data[1], test_size=0.25)
  copied_pipeline = deepcopy(self._pipeline)
  copied_pipeline.fit(X_train, y_train)
  pred = copied_pipeline.predict(X_test)
  avg_score = calculate_model_score(y_test, pred, self.task)
  \<close>
\<close>

definition split_branch :: "'p collab \<Rightarrow> (real, 'p) prog" where
  "split_branch c \<sigma> =
     (case data (self \<sigma>) of (X, y, _) \<Rightarrow>
        andThen (invoke (Train_test_split X y (1 / 4)) (train_test_split c X y (1 / 4)))
          (\<lambda>(X_train, X_test, y_train, y_test).
        andThen (deepcopy (pipeline (self \<sigma>)))
          (\<lambda>copied_pipeline.
        andThen (fit c copied_pipeline X_train y_train)
          (\<lambda>_.
        andThen (predict_on c copied_pipeline X_test)
          (\<lambda>pred.
        invoke (Calculate_model_score y_test pred (task (self \<sigma>)))
          (calculate_model_score c y_test pred (task (self \<sigma>))))))) \<sigma>)"

text \<open>
  Lines 132 to 155 of \<^verbatim>\<open>train\<close>, the block under \<^verbatim>\<open>if pre_eval:\<close>. It yields
  \<^verbatim>\<open>avg_score\<close>, which stays unbound (\<open>None\<close>) when \<^verbatim>\<open>pre_eval\<close> is false.
  \<^verbatim>\<open>
  if pre_eval:
      print_("Beginning training")
      print_("Pre-evaluation of model performance")
      old_verbosity_level = int(os.getenv("FALCON_VERBOSITYLEVEL", "1"))
      set_verbosity_level(0)
      if (...): <first arm>
      else: <second arm>
      set_verbosity_level(old_verbosity_level)
  \<close>
\<close>

definition pre_evaluation :: "'p collab \<Rightarrow> bool \<Rightarrow> (real option, 'p) prog" where
  "pre_evaluation c pre_eval =
     (if pre_eval then
        andThen (falcon_print ''Beginning training'') (\<lambda>_.
        andThen (falcon_print ''Pre-evaluation of model performance'') (\<lambda>_.
        andThen getenv_verbosity (\<lambda>old_verbosity_level.
        andThen (set_verbosity_level 0) (\<lambda>_.
        andThen (\<lambda>\<sigma>. liftS (cv_condition (fst (data (self \<sigma>)))) \<sigma>) (\<lambda>small.
        andThen (if small then cv_branch c else split_branch c) (\<lambda>avg_score.
        andThen (set_verbosity_level old_verbosity_level) (\<lambda>_.
        returnS (Some avg_score))))))))
      else returnS None)"

text \<open>
  \<^verbatim>\<open>train\<close>: the block above, then lines 156 to 161:
  \<^verbatim>\<open>
  print_("Beginning the main training phase")
  self._pipeline.fit(self._data[0], self._data[1])
  print_("Finished training")
  if pre_eval:
      print(f"Score: {avg_score}")
  return self
  \<close>
\<close>

definition train :: "'p collab \<Rightarrow> bool \<Rightarrow> (manager, 'p) prog" where
  "train c pre_eval =
     andThen (pre_evaluation c pre_eval) (\<lambda>avg_score.
     andThen (falcon_print ''Beginning the main training phase'') (\<lambda>_.
     andThen (\<lambda>\<sigma>. fit c (pipeline (self \<sigma>)) (fst (data (self \<sigma>))) (fst (snd (data (self \<sigma>)))) \<sigma>)
       (\<lambda>_.
     andThen (falcon_print ''Finished training'') (\<lambda>_.
     andThen (if pre_eval
              then (case avg_score of
                      Some s \<Rightarrow> invoke (Print_score s) (Inr ())
                    | None \<Rightarrow> raiseS UnboundLocalError)
              else returnS ()) (\<lambda>_.
     (\<lambda>\<sigma>. (Inr (self \<sigma>), \<sigma>)))))))"

section \<open>Configurations\<close>

text \<open>
  The values of \<^verbatim>\<open>configurations.py\<close>: classes, integers, dictionaries with string keys
  (in the order they are written), and the estimator lists of \<^verbatim>\<open>_default_estimators\<close>.
  That table belongs to \<^verbatim>\<open>falcon.tabular.learners.super_learner\<close>, which is not among
  the source files, so its entries are opaque values of type \<open>'e\<close> and the table is a
  parameter \<open>de\<close>: \<open>de t tier\<close> is \<^verbatim>\<open>_default_estimators[t][tier]\<close>. The mask of the
  pipeline options is a list of booleans.
\<close>

datatype cls =
    SimpleTabularPipeline
  | SuperLearner
  | OptunaLearner
  | PlainLearner
  | HistGradientBoostingClassifier
  | HistGradientBoostingRegressor

datatype 'e pyval =
    VInt int
  | VClass cls
  | VBools "bool list"
  | VEstimators 'e
  | VDict "(string \<times> 'e pyval) list"

text \<open>\<^verbatim>\<open>d[k]\<close>: KeyError when the key is missing, TypeError when \<open>d\<close> is no dictionary.\<close>

fun subscript :: "'e pyval \<Rightarrow> string \<Rightarrow> error + 'e pyval" where
  "subscript (VDict kvs) k = (case map_of kvs k of None \<Rightarrow> Inl KeyError | Some v \<Rightarrow> Inr v)"
| "subscript _ k = Inl TypeError"

text \<open>\<^verbatim>\<open>d[k1][k2]...\<close>\<close>

fun item_at :: "'e pyval \<Rightarrow> string list \<Rightarrow> error + 'e pyval" where
  "item_at v [] = Inr v"
| "item_at v (k # ks) = (case subscript v k of Inl e \<Rightarrow> Inl e | Inr w \<Rightarrow> item_at w ks)"

definition SUPER_LEARNER_DEFAULT_CONFIG :: "'e pyval" where
  "SUPER_LEARNER_DEFAULT_CONFIG =
     VDict [(''pipeline'', VClass SimpleTabularPipeline),
            (''extra_pipeline_options'',
               VDict [(''learner'', VClass SuperLearner), (''learner_kwargs'', VDict [])])]"

definition OPTUNA_LEARNER_DEFAULT_CONFIG :: "'e pyval" where
  "OPTUNA_LEARNER_DEFAULT_CONFIG =
     VDict [(''pipeline'', VClass SimpleTabularPipeline),
            (''extra_pipeline_options'',
               VDict [(''learner'', VClass OptunaLearner), (''learner_kwargs'', VDict [])])]"

definition PLAIN_LEARNER_DEFAULT_CONFIG :: "'e pyval" where
  "PLAIN_LEARNER_DEFAULT_CONFIG =
     VDict [(''pipeline'', VClass SimpleTabularPipeline),
            (''extra_pipeline_options'',
               VDict [(''learner'', VClass PlainLearner), (''learner_kwargs'', VDict [])])]"

definition TABULAR_CLASSIFICATION_CONFIGURATIONS :: "(string \<Rightarrow> string \<Rightarrow> 'e) \<Rightarrow> 'e pyval" where
  "TABULAR_CLASSIFICATION_CONFIGURATIONS de =
     VDict [
       (''SuperLearner.mini'',
          VDict [(''pipeline'', VClass SimpleTabularPipeline),
                 (''extra_pipeline_options'',
                    VDict [(''learner'', VClass SuperLearner),
                           (''learner_kwargs'',
                              VDict [(''cv'', VInt 10),
                                     (''base_estimators'',
                                        VEstimators (de ''tabular_classification'' ''mini''))])])]),
       (''SuperLearner.mid'',
          VDict [(''pipeline'', VClass SimpleTabularPipeline),
                 (''extra_pipeline_options'',
                    VDict [(''learner'', VClass SuperLearner),
                           (''learner_kwargs'',
                              VDict [(''cv'', VInt 5),
                                     (''base_estimators'',
                                        VEstimators (de ''tabular_classification'' ''mid''))])])]),
       (''SuperLearner.large'',
          VDict [(''pipeline'', VClass SimpleTabularPipeline),
                 (''extra_pipeline_options'',
                    VDict [(''learner'', VClass SuperLearner),
                           (''learner_kwargs'',
                              VDict [(''cv'', VInt 3),
                                     (''base_estimators'',
                                        VEstimators (de ''tabular_classification'' ''large''))])])]),
       (''SuperLearner.xlarge'',
          VDict [(''pipeline'', VClass SimpleTabularPipeline),
                 (''extra_pipeline_options'',
                    VDict [(''learner'', VClass SuperLearner),
                           (''learner_kwargs'',
                              VDict [(''cv'', VInt 3),
                                     (''base_estimators'',
                                        VEstimators (de ''tabular_classification'' ''x-large''))])])]),
       (''OptunaLearner.hgbt'',
          VDict [(''pipeline'', VClass SimpleTabularPipeline),
                 (''extra_pipeline_options'',
                    VDict [(''learner'', VClass OptunaLearner),
                           (''learner_kwargs'',
                              VDict [(''model_class'', VClass HistGradientBoostingClassifier)])])]),
       (''PlainLearner.hgbt'',
          VDict [(''pipeline'', VClass SimpleTabularPipeline),
                 (''extra_pipeline_options'',
                    VDict [(''learner'', VClass PlainLearner),
                           (''learner_kwargs'',
                              VDict [(''model_class'', VClass HistGradientBoostingClassifier)])])]),
       (''SuperLearner'', SUPER_LEARNER_DEFAULT_CONFIG),
       (''OptunaLearner'', OPTUNA_LEARNER_DEFAULT_CONFIG),
       (''PlainLearner'', PLAIN_LEARNER_DEFAULT_CONFIG)]"

definition TABULAR_REGRESSION_CONFIGURATIONS :: "(string \<Rightarrow> string \<Rightarrow> 'e) \<Rightarrow> 'e pyval" where
  "TABULAR_REGRESSION_CONFIGURATIONS de =
     VDict [
       (''SuperLearner.mini'',
          VDict [(''pipeline'', VClass SimpleTabularPipeline),
                 (''extra_pipeline_options'',
                    VDict [(''learner'', VClass SuperLearner),
                           (''learner_kwargs'',
                              VDict [(''cv'', VInt 10),
                                     (''base_estimators'',
                                        VEstimators (de ''tabular_regression'' ''mini''))])])]),
       (''SuperLearner.mid'',
          VDict [(''pipeline'', VClass SimpleTabularPipeline),
                 (''extra_pipeline_options'',
                    VDict [(''learner'', VClass SuperLearner),
                           (''learner_kwargs'',
                              VDict [(''cv'', VInt 5),
                                     (''base_estimators'',
                                        VEstimators (de ''tabular_regression'' ''mid''))])])]),
       (''SuperLearner.large'',
          VDict [(''pipeline'', VClass SimpleTabularPipeline),
                 (''extra_pipeline_options'',
                    VDict [(''learner'', VClass SuperLearner),
                           (''learner_kwargs'',
                              VDict [(''cv'', VInt 3),
                                     (''base_estimators'',
                                        VEstimators (de ''tabular_regression'' ''large''))])])]),
       (''SuperLearner.xlarge'',
          VDict [(''pipeline'', VClass SimpleTabularPipeline),
                 (''extra_pipeline_options'',
                    VDict [(''learner'', VClass SuperLearner),
                           (''learner_kwargs'',
                              VDict [(''cv'', VInt 3),
                                     (''base_estimators'',
                                        VEstimators (de ''tabular_regression'' ''x-large''))])])]),
       (''OptunaLearner.hgbt'',
          VDict [(''pipeline'', VClass SimpleTabularPipeline),
                 (''extra_pipeline_options'',
                    VDict [(''learner'', VClass OptunaLearner),
                           (''learner_kwargs'',
                              VDict [(''model_class'', VClass HistGradientBoostingRegressor)])])]),
       (''PlainLearner.hgbt'',
          VDict [(''pipeline'', VClass SimpleTabularPipeline),
                 (''extra_pipeline_options'',
                    VDict [(''learner'', VClass PlainLearner),
                           (''learner_kwargs'',
                              VDict [(''model_class'', VClass HistGradientBoostingRegressor)])])]),
       (''SuperLearner'', SUPER_LEARNER_DEFAULT_CONFIG),
       (''OptunaLearner'', OPTUNA_LEARNER_DEFAULT_CONFIG),
       (''PlainLearner'', PLAIN_LEARNER_DEFAULT_CONFIG)]"

text \<open>
  Modelled from the spec: the resolver of profile names is not among the source files.
  The spec describes a two-level mapping, task type to profile name to configuration,
  with exact-string lookup, where an unknown profile name fails with a
  \<^verbatim>\<open>ConfigurationError\<close>.
\<close>

definition resolve :: "(string \<Rightarrow> string \<Rightarrow> 'e) \<Rightarrow> string \<Rightarrow> string \<Rightarrow> error + 'e pyval" where
  "resolve de profile task_type =
     (if task_type = ''tabular_classification''
      then (case subscript (TABULAR_CLASSIFICATION_CONFIGURATIONS de) profile of
              Inl e \<Rightarrow> Inl ConfigurationError | Inr cfg \<Rightarrow> Inr cfg)
      else if task_type = ''tabular_regression''
      then (case subscript (TABULAR_REGRESSION_CONFIGURATIONS de) profile of
              Inl e \<Rightarrow> Inl ConfigurationError | Inr cfg \<Rightarrow> Inr cfg)
      else Inl ConfigurationError)"

section \<open>Construction\<close>

text \<open>
  \<^verbatim>\<open>default_pipeline\<close> and \<^verbatim>\<open>default_pipeline_options\<close>:
  \<^verbatim>\<open>
  return SimpleTabularPipeline
  options = {"mask": self._data[2]}
  return options
  \<close>
  A dictionary of options is a map from its keys to its values.
\<close>

definition default_pipeline :: cls where
  "default_pipeline = SimpleTabularPipeline"

definition default_pipeline_options :: "manager \<Rightarrow> (string \<rightharpoonup> 'e pyval)" where
  "default_pipeline_options m = [''mask'' \<mapsto> VBools (snd (snd (data m)))]"

text \<open>
  Modelled from the spec: the base class \<^verbatim>\<open>TaskManager\<close> of \<^verbatim>\<open>falcon.abstract\<close>, whose
  \<^verbatim>\<open>__init__\<close> resolves the options, is not among the source files. By the spec and
  the docstring of \<^verbatim>\<open>TabularTaskManager.__init__\<close>, \<^verbatim>\<open>pipeline_options\<close> overwrite the
  default options, \<^verbatim>\<open>extra_pipeline_options\<close> are passed in addition to the default
  options, and \<^verbatim>\<open>extra_pipeline_options\<close> are ignored when \<^verbatim>\<open>pipeline_options\<close> is given.
\<close>

definition effective_pipeline_options ::
  "manager \<Rightarrow> (string \<rightharpoonup> 'e pyval) option \<Rightarrow> (string \<rightharpoonup> 'e pyval) option
     \<Rightarrow> (string \<rightharpoonup> 'e pyval)" where
  "effective_pipeline_options m pipeline_options extra_pipeline_options =
     (case pipeline_options of
        Some options \<Rightarrow> options
      | None \<Rightarrow>
          (case extra_pipeline_options of
             None \<Rightarrow> default_pipeline_options m
           | Some extra \<Rightarrow> default_pipeline_options m ++ extra))"

text \<open>
  Modelled from the spec: \<^verbatim>\<open>TaskManager.__init__\<close> (not among the source files). It
  fails with a \<^verbatim>\<open>ConfigurationError\<close> if \<^verbatim>\<open>features\<close> is given without \<^verbatim>\<open>target\<close> or
  the other way round, stores the arguments, prepares the dataset, and constructs the
  pipeline (the given class, or the default one) with the effective options. \<open>new_pipeline\<close>
  stands for calling the pipeline class: \<^verbatim>\<open>pipeline(task=task, **options)\<close>.
\<close>

definition TaskManager_init ::
  "'p collab \<Rightarrow> (cls \<Rightarrow> string \<Rightarrow> (string \<rightharpoonup> 'e pyval) \<Rightarrow> error + 'p) \<Rightarrow> string \<Rightarrow> dataset
     \<Rightarrow> cls option \<Rightarrow> (string \<rightharpoonup> 'e pyval) option \<Rightarrow> (string \<rightharpoonup> 'e pyval) option
     \<Rightarrow> column list option \<Rightarrow> column option \<Rightarrow> (manager, 'p) prog" where
  "TaskManager_init c new_pipeline tsk d pipeline_cls pipeline_options extra_pipeline_options fs tg =
     (if (fs = None) \<noteq> (tg = None) then raiseS ConfigurationError
      else
        andThen (\<lambda>\<sigma>. (Inr (), \<sigma>\<lparr>self := (self \<sigma>)\<lparr>task := tsk, features := fs, target := tg\<rparr>\<rparr>))
          (\<lambda>_.
        andThen (prepare_data c d True)
          (\<lambda>prepared.
        andThen (\<lambda>\<sigma>. (Inr (), \<sigma>\<lparr>self := (self \<sigma>)\<lparr>data := prepared\<rparr>\<rparr>))
          (\<lambda>_.
        andThen (\<lambda>\<sigma>. liftS (new_pipeline (case pipeline_cls of None \<Rightarrow> default_pipeline | Some k \<Rightarrow> k)
                              tsk
                              (effective_pipeline_options (self \<sigma>) pipeline_options
                                 extra_pipeline_options)) \<sigma>)
          (\<lambda>obj. \<lambda>\<sigma>.
             (Inr ((self \<sigma>)\<lparr>pipeline := length (heap \<sigma>)\<rparr>),
              \<sigma>\<lparr>self := (self \<sigma>)\<lparr>pipeline := length (heap \<sigma>)\<rparr>, heap := heap \<sigma> @ [obj]\<rparr>))))))"

text \<open>
  \<^verbatim>\<open>TabularTaskManager.__init__\<close>:
  \<^verbatim>\<open>
  print_(f"\nInitializing a new TabularTaskManager for task `{task}`")
  super().__init__(task=task, data=data, pipeline=pipeline,
      pipeline_options=pipeline_options, extra_pipeline_options=extra_pipeline_options,
      features=features, target=target)
  \<close>
\<close>

definition init_message :: "string \<Rightarrow> string" where
  "init_message tsk =
     CHR 0x0A # ''Initializing a new TabularTaskManager for task `'' @ tsk @ ''`''"

definition init ::
  "'p collab \<Rightarrow> (cls \<Rightarrow> string \<Rightarrow> (string \<rightharpoonup> 'e pyval) \<Rightarrow> error + 'p) \<Rightarrow> string \<Rightarrow> dataset
     \<Rightarrow> cls option \<Rightarrow> (string \<rightharpoonup> 'e pyval) option \<Rightarrow> (string \<rightharpoonup> 'e pyval) option
     \<Rightarrow> column list option \<Rightarrow> column option \<Rightarrow> (manager, 'p) prog" where
  "init c new_pipeline tsk d pipeline_cls pipeline_options extra_pipeline_options fs tg =
     andThen (falcon_print (init_message tsk))
       (\<lambda>_. TaskManager_init c new_pipeline tsk d pipeline_cls pipeline_options
               extra_pipeline_options fs tg)"

text \<open>
  The rows of a 2-D array are consecutive runs of its cells; its last column holds the
  last cell of every row, its other columns the rest of every row. Both are used on
  2-D arrays only.
\<close>

primrec rows :: "nat \<Rightarrow> nat \<Rightarrow> 'a list \<Rightarrow> 'a list list" where
  "rows 0 k xs = []"
| "rows (Suc r) k xs = take k xs # rows r k (drop k xs)"

definition last_column :: "ndarray \<Rightarrow> ndarray" where
  "last_column a =
     \<lparr>shape = [shape a ! 0],
      flat = map last (rows (shape a ! 0) (shape a ! 1) (flat a))\<rparr>"

definition other_columns :: "ndarray \<Rightarrow> ndarray" where
  "other_columns a =
     \<lparr>shape = [shape a ! 0, shape a ! 1 - 1],
      flat = concat (map butlast (rows (shape a ! 0) (shape a ! 1) (flat a)))\<rparr>"

text \<open>
  Modelled from the spec: \<^verbatim>\<open>split_features\<close> of \<^verbatim>\<open>falcon.tabular.utils\<close> is not among
  the source files. With explicit \<^verbatim>\<open>features\<close> and \<^verbatim>\<open>target\<close> it uses them (\<open>select\<close>
  stands for that selection, which the spec leaves open); with neither, the last column
  is the target and the other columns are the features; both or neither must be given.
\<close>

definition spec_split_features ::
  "(table \<Rightarrow> column list \<Rightarrow> column \<Rightarrow> error + ndarray \<times> ndarray)
     \<Rightarrow> table \<Rightarrow> column list option \<Rightarrow> column option \<Rightarrow> error + ndarray \<times> ndarray" where
  "spec_split_features select tbl fs tg =
     (case (fs, tg) of
        (Some f, Some t) \<Rightarrow> select tbl f t
      | (None, None) \<Rightarrow>
          (if length (shape (np_asarray tbl)) = 2 \<and> 0 < shape (np_asarray tbl) ! 1
           then Inr (other_columns (np_asarray tbl), last_column (np_asarray tbl))
           else Inl IndexError)
      | _ \<Rightarrow> Inl ConfigurationError)"

section \<open>A concrete world\<close>

text \<open>
  Collaborators and states on which the methods can be run: a pipeline object is its
  fitted flag, and the scorers return fixed scores. \<open>example_split\<close> cuts off the last
  quarter of the rows (rounded up) as scikit-learn does, without shuffling.
\<close>

definition example_predict :: "bool \<Rightarrow> ndarray \<Rightarrow> error + ndarray" where
  "example_predict fitted X =
     (if fitted then Inr \<lparr>shape = [hd (shape X)], flat = replicate (hd (shape X)) (Num 0)\<rparr>
      else Inl (Raised ''NotFittedError''))"

definition example_split ::
  "ndarray \<Rightarrow> ndarray \<Rightarrow> real \<Rightarrow> error + ndarray \<times> ndarray \<times> ndarray \<times> ndarray" where
  "example_split X y q =
     (let n = hd (shape X); k = hd (tl (shape X)); n_test = (n + 3) div 4; n_train = n - n_test
      in Inr (\<lparr>shape = [n_train, k], flat = take (n_train * k) (flat X)\<rparr>,
              \<lparr>shape = [n_test, k], flat = drop (n_train * k) (flat X)\<rparr>,
              \<lparr>shape = [n_train], flat = take n_train (flat y)\<rparr>,
              \<lparr>shape = [n_test], flat = drop n_train (flat y)\<rparr>))"

definition example_collab :: "bool collab" where
  "example_collab =
     \<lparr>read_data = (\<lambda>p. Inl (Raised ''FileNotFoundError'')),
      split_features = spec_split_features (\<lambda>tbl f t. Inl (Raised ''NotImplementedError'')),
      clean_data_split = (\<lambda>X y. Inr (X, y)),
      get_cat_mask = (\<lambda>X. Inr (replicate (hd (tl (shape X))) False)),
      tab_cv_score = (\<lambda>P X y t. Inr [1, 1 / 2]),
      np_mean = (\<lambda>xs. sum_list xs / real (length xs)),
      train_test_split = example_split,
      calculate_model_score = (\<lambda>y_true y_pred t. Inr 1),
      pipe_fit = (\<lambda>P X y. Inr True),
      pipe_predict = example_predict\<rparr>"

text \<open>The same world, except that every fit and every cross-validation raises.\<close>

definition failing_collab :: "bool collab" where
  "failing_collab =
     example_collab
       \<lparr>tab_cv_score := (\<lambda>P X y t. Inl (Raised ''FitFailure'')),
        pipe_fit := (\<lambda>P X y. Inl (Raised ''FitFailure''))\<rparr>"

text \<open>The same world, except that cleaning hands the target back as one column.\<close>

definition column_collab :: "bool collab" where
  "column_collab =
     example_collab
       \<lparr>clean_data_split := (\<lambda>X y. Inr (X, y\<lparr>shape := [length (flat y), 1]\<rparr>))\<rparr>"

definition example_construct :: "cls \<Rightarrow> string \<Rightarrow> (string \<rightharpoonup> unit pyval) \<Rightarrow> error + bool" where
  "example_construct k t options = Inr False"

definition small_table :: table where
  "small_table = Array \<lparr>shape = [2, 3], flat = [Num 1, Num 2, Num 3, Num 4, Num 5, Num 6]\<rparr>"

text \<open>A manager on 400 rows and 3 columns, and one on 500 rows and 100 columns.\<close>

definition small_state :: "bool state" where
  "small_state =
     \<lparr>self = \<lparr>task = ''tabular_classification'', features = None, target = None,
              data = (\<lparr>shape = [400, 3], flat = replicate 1200 (Num 0)\<rparr>,
                      \<lparr>shape = [400], flat = replicate 400 (Num 0)\<rparr>,
                      [False, False, False]),
              pipeline = 0\<rparr>,
      heap = [False],
      verbosity = IntText 1,
      trace = []\<rparr>"

definition big_state :: "bool state" where
  "big_state =
     \<lparr>self = \<lparr>task = ''tabular_regression'', features = None, target = None,
              data = (\<lparr>shape = [500, 100], flat = replicate 50000 (Num 0)\<rparr>,
                      \<lparr>shape = [500], flat = replicate 500 (Num 0)\<rparr>,
                      replicate 100 False),
              pipeline = 0\<rparr>,
      heap = [False],
      verbosity = Unset,
      trace = []\<rparr>"

section \<open>Running the methods step by step\<close>

text \<open>
  Each method unfolds into the collaborator outcomes it depends on, with the state and the
  calls it leaves behind written out.
\<close>

lemmas progs = andThen_def invoke_def returnS_def raiseS_def liftS_def

lemma cv_condition_2d:
  "shape X = [r, k] \<Longrightarrow> cv_condition X = Inr (r * k < 50000 \<or> r < 500)"
  by (simp add: cv_condition_def shape_at_def)

lemma cv_branch_run:
  assumes "data (self \<sigma>) = (X, y, m)"
  shows "cv_branch c \<sigma> =
    (case tab_cv_score c (heap \<sigma> ! pipeline (self \<sigma>)) X y (task (self \<sigma>)) of
       Inl e \<Rightarrow> Inl e | Inr score \<Rightarrow> Inr (np_mean c score),
     \<sigma>\<lparr>trace := trace \<sigma> @ [Tab_cv_score (pipeline (self \<sigma>)) X y (task (self \<sigma>))]\<rparr>)"
  using assms by (simp add: cv_branch_def progs split: sum.splits)

lemma split_branch_run:
  assumes "data (self \<sigma>) = (X, y, m)"
  shows "split_branch c \<sigma> =
    (case train_test_split c X y (1 / 4) of
       Inl e \<Rightarrow> (Inl e, \<sigma>\<lparr>trace := trace \<sigma> @ [Train_test_split X y (1 / 4)]\<rparr>)
     | Inr (X_train, X_test, y_train, y_test) \<Rightarrow>
        (case pipe_fit c (heap \<sigma> ! pipeline (self \<sigma>)) X_train y_train of
           Inl e \<Rightarrow>
             (Inl e, \<sigma>\<lparr>heap := heap \<sigma> @ [heap \<sigma> ! pipeline (self \<sigma>)],
                trace := trace \<sigma> @ [Train_test_split X y (1 / 4),
                  Deepcopy (pipeline (self \<sigma>)) (length (heap \<sigma>)),
                  Fit (length (heap \<sigma>)) X_train y_train]\<rparr>)
         | Inr P \<Rightarrow>
            (case pipe_predict c P X_test of
               Inl e \<Rightarrow>
                 (Inl e, \<sigma>\<lparr>heap := heap \<sigma> @ [P],
                    trace := trace \<sigma> @ [Train_test_split X y (1 / 4),
                      Deepcopy (pipeline (self \<sigma>)) (length (heap \<sigma>)),
                      Fit (length (heap \<sigma>)) X_train y_train,
                      Predict (length (heap \<sigma>)) X_test]\<rparr>)
             | Inr pred \<Rightarrow>
                 (calculate_model_score c y_test pred (task (self \<sigma>)),
                  \<sigma>\<lparr>heap := heap \<sigma> @ [P],
                    trace := trace \<sigma> @ [Train_test_split X y (1 / 4),
                      Deepcopy (pipeline (self \<sigma>)) (length (heap \<sigma>)),
                      Fit (length (heap \<sigma>)) X_train y_train,
                      Predict (length (heap \<sigma>)) X_test,
                      Calculate_model_score y_test pred (task (self \<sigma>))]\<rparr>))))"
  using assms
  by (simp add: split_branch_def deepcopy_def fit_def predict_on_def progs
      split: sum.splits prod.splits)

lemma pre_evaluation_False: "pre_evaluation c False \<sigma> = (Inr None, \<sigma>)"
  by (simp add: pre_evaluation_def returnS_def)

lemma pre_evaluation_True:
  assumes "level_of (verbosity \<sigma>) = Inr old"
      and "cv_condition (fst (data (self \<sigma>))) = Inr small"
  shows "pre_evaluation c True \<sigma> =
    (case (if small then cv_branch c else split_branch c)
            (\<sigma>\<lparr>verbosity := IntText 0,
               trace := trace \<sigma> @ [Falcon_print ''Beginning training'',
                 Falcon_print ''Pre-evaluation of model performance'',
                 Set_verbosity_level 0]\<rparr>) of
       (Inl e, \<sigma>') \<Rightarrow> (Inl e, \<sigma>')
     | (Inr avg_score, \<sigma>') \<Rightarrow>
         (Inr (Some avg_score),
          \<sigma>'\<lparr>verbosity := IntText old, trace := trace \<sigma>' @ [Set_verbosity_level old]\<rparr>))"
  using assms
  by (simp add: pre_evaluation_def falcon_print_def getenv_verbosity_def set_verbosity_level_def
      progs split: sum.splits prod.splits)

lemma train_run:
  "train c pre_eval \<sigma> =
    (case pre_evaluation c pre_eval \<sigma> of
       (Inl e, \<sigma>') \<Rightarrow> (Inl e, \<sigma>')
     | (Inr avg_score, \<sigma>') \<Rightarrow>
        (case pipe_fit c (heap \<sigma>' ! pipeline (self \<sigma>')) (fst (data (self \<sigma>')))
                (fst (snd (data (self \<sigma>')))) of
           Inl e \<Rightarrow>
             (Inl e, \<sigma>'\<lparr>trace := trace \<sigma>' @ [Falcon_print ''Beginning the main training phase'',
                Fit (pipeline (self \<sigma>')) (fst (data (self \<sigma>'))) (fst (snd (data (self \<sigma>'))))]\<rparr>)
         | Inr P \<Rightarrow>
             (if pre_eval then
                (case avg_score of
                   Some s \<Rightarrow>
                     (Inr (self \<sigma>'),
                      \<sigma>'\<lparr>heap := (heap \<sigma>')[pipeline (self \<sigma>') := P],
                        trace := trace \<sigma>' @ [Falcon_print ''Beginning the main training phase'',
                          Fit (pipeline (self \<sigma>')) (fst (data (self \<sigma>'))) (fst (snd (data (self \<sigma>')))),
                          Falcon_print ''Finished training'', Print_score s]\<rparr>)
                 | None \<Rightarrow>
                     (Inl UnboundLocalError,
                      \<sigma>'\<lparr>heap := (heap \<sigma>')[pipeline (self \<sigma>') := P],
                        trace := trace \<sigma>' @ [Falcon_print ''Beginning the main training phase'',
                          Fit (pipeline (self \<sigma>')) (fst (data (self \<sigma>'))) (fst (snd (data (self \<sigma>')))),
                          Falcon_print ''Finished training'']\<rparr>))
              else
                (Inr (self \<sigma>'),
                 \<sigma>'\<lparr>heap := (heap \<sigma>')[pipeline (self \<sigma>') := P],
                   trace := trace \<sigma>' @ [Falcon_print ''Beginning the main training phase'',
                     Fit (pipeline (self \<sigma>')) (fst (data (self \<sigma>'))) (fst (snd (data (self \<sigma>')))),
                     Falcon_print ''Finished training'']\<rparr>))))"
  by (simp add: train_def fit_def falcon_print_def progs split: sum.splits prod.splits option.splits)

lemma cv_branch_frame:
  "self (snd (cv_branch c \<sigma>)) = self \<sigma> \<and> heap (snd (cv_branch c \<sigma>)) = heap \<sigma>
   \<and> verbosity (snd (cv_branch c \<sigma>)) = verbosity \<sigma>"
  by (cases "data (self \<sigma>)") (simp add: cv_branch_run)

lemma split_branch_frame:
  "self (snd (split_branch c \<sigma>)) = self \<sigma> \<and> verbosity (snd (split_branch c \<sigma>)) = verbosity \<sigma>
   \<and> (\<forall>a < length (heap \<sigma>). heap (snd (split_branch c \<sigma>)) ! a = heap \<sigma> ! a)"
  by (cases "data (self \<sigma>)")
     (auto simp: split_branch_run nth_append split: sum.splits prod.splits)

lemma split_branch_trace:
  assumes "data (self \<sigma>) = (X, y, cmask)"
  shows "\<exists>tl. trace (snd (split_branch c \<sigma>)) = trace \<sigma> @ Train_test_split X y (1 / 4) # tl
           \<and> (\<forall>ev \<in> set tl. (\<exists>a. ev = Deepcopy a (length (heap \<sigma>)))
                 \<or> (\<exists>X' y'. ev = Fit (length (heap \<sigma>)) X' y')
                 \<or> (\<exists>X'. ev = Predict (length (heap \<sigma>)) X')
                 \<or> (\<exists>a b t. ev = Calculate_model_score a b t))"
  using assms by (simp add: split_branch_run split: sum.splits prod.splits)

lemma pre_evaluation_cv_trace:
  assumes "data (self \<sigma>) = (X, y, cmask)"
      and "level_of (verbosity \<sigma>) = Inr old"
      and "cv_condition X = Inr True"
  shows "\<exists>tl. trace (snd (pre_evaluation c True \<sigma>)) =
           trace \<sigma> @ [Falcon_print ''Beginning training'',
             Falcon_print ''Pre-evaluation of model performance'', Set_verbosity_level 0,
             Tab_cv_score (pipeline (self \<sigma>)) X y (task (self \<sigma>))] @ tl
           \<and> set tl \<subseteq> {Set_verbosity_level old}"
  using assms
  by (simp add: pre_evaluation_True [where small = True] cv_branch_run split: sum.splits)

lemma pre_evaluation_split_trace:
  assumes "data (self \<sigma>) = (X, y, cmask)"
      and "level_of (verbosity \<sigma>) = Inr old"
      and "cv_condition X = Inr False"
  shows "\<exists>tl. trace (snd (pre_evaluation c True \<sigma>)) =
           trace \<sigma> @ [Falcon_print ''Beginning training'',
             Falcon_print ''Pre-evaluation of model performance'', Set_verbosity_level 0,
             Train_test_split X y (1 / 4)] @ tl
           \<and> (\<forall>ev \<in> set tl. ev = Set_verbosity_level old
                 \<or> (\<exists>a. ev = Deepcopy a (length (heap \<sigma>)))
                 \<or> (\<exists>X' y'. ev = Fit (length (heap \<sigma>)) X' y')
                 \<or> (\<exists>X'. ev = Predict (length (heap \<sigma>)) X')
                 \<or> (\<exists>a b t. ev = Calculate_model_score a b t))"
proof -
  let ?\<sigma>1 = "\<sigma>\<lparr>verbosity := IntText 0,
               trace := trace \<sigma> @ [Falcon_print ''Beginning training'',
                 Falcon_print ''Pre-evaluation of model performance'',
                 Set_verbosity_level 0]\<rparr>"
  have d1: "data (self ?\<sigma>1) = (X, y, cmask)" using assms(1) by simp
  from split_branch_trace [OF d1, of c] obtain tl where
    tl: "trace (snd (split_branch c ?\<sigma>1)) = trace ?\<sigma>1 @ Train_test_split X y (1 / 4) # tl"
    and evs: "\<forall>ev \<in> set tl. (\<exists>a. ev = Deepcopy a (length (heap \<sigma>)))
                 \<or> (\<exists>X' y'. ev = Fit (length (heap \<sigma>)) X' y')
                 \<or> (\<exists>X'. ev = Predict (length (heap \<sigma>)) X')
                 \<or> (\<exists>a b t. ev = Calculate_model_score a b t)"
    by auto
  have pe: "pre_evaluation c True \<sigma> =
    (case split_branch c ?\<sigma>1 of
       (Inl e, \<sigma>') \<Rightarrow> (Inl e, \<sigma>')
     | (Inr avg_score, \<sigma>') \<Rightarrow>
         (Inr (Some avg_score),
          \<sigma>'\<lparr>verbosity := IntText old, trace := trace \<sigma>' @ [Set_verbosity_level old]\<rparr>))"
    using pre_evaluation_True [of \<sigma> old False c] assms by simp
  show ?thesis
  proof (cases "split_branch c ?\<sigma>1")
    case (Pair res \<sigma>2)
    then show ?thesis using pe tl evs by (cases res) auto
  qed
qed

lemma train_trace:
  "\<exists>main. trace (snd (train c pre_eval \<sigma>)) = trace (snd (pre_evaluation c pre_eval \<sigma>)) @ main
     \<and> (\<forall>ev \<in> set main. (\<exists>msg. ev = Falcon_print msg)
           \<or> ev = Fit (pipeline (self (snd (pre_evaluation c pre_eval \<sigma>))))
                    (fst (data (self (snd (pre_evaluation c pre_eval \<sigma>)))))
                    (fst (snd (data (self (snd (pre_evaluation c pre_eval \<sigma>))))))
           \<or> (pre_eval \<and> (\<exists>s. ev = Print_score s)))"
  by (cases "pre_evaluation c pre_eval \<sigma>")
     (auto simp: train_run split: sum.splits option.splits)

section \<open>Pre-evaluation: the choice of branch\<close>

text \<open>
  C1. For a prepared training set \<open>(X, y)\<close> whose \<open>X\<close> has \<open>r\<close> rows and \<open>k\<close> columns,
  \<^verbatim>\<open>train(pre_eval=True)\<close> calls the cross-validation scorer exactly when
  \<open>r * k < 50000\<close> or \<open>r < 500\<close>, and then on the manager's own pipeline and the full
  \<open>(X, y)\<close>; otherwise it calls \<^verbatim>\<open>train_test_split\<close> on \<open>(X, y)\<close> with a test size of one
  quarter. Which of the two happens depends on \<open>r\<close> and \<open>k\<close> only. (The verbosity
  variable must hold a number, or \<^verbatim>\<open>int\<close> raises before the branch is reached.)
\<close>

theorem train_pre_eval_branch:
  assumes d: "data (self \<sigma>) = (X, y, cmask)"
      and sh: "shape X = [r, k]"
      and env: "level_of (verbosity \<sigma>) = Inr old"
  shows "((\<exists>a X' y' t. Tab_cv_score a X' y' t \<in> set (calls_since \<sigma> (snd (train c True \<sigma>))))
            = (r * k < 50000 \<or> r < 500))
       \<and> ((\<exists>X' y'. Train_test_split X' y' (1 / 4) \<in> set (calls_since \<sigma> (snd (train c True \<sigma>))))
            = (\<not> (r * k < 50000 \<or> r < 500)))
       \<and> (r * k < 50000 \<or> r < 500 \<longrightarrow>
            Tab_cv_score (pipeline (self \<sigma>)) X y (task (self \<sigma>))
              \<in> set (calls_since \<sigma> (snd (train c True \<sigma>))))
       \<and> (\<not> (r * k < 50000 \<or> r < 500) \<longrightarrow>
            Train_test_split X y (1 / 4) \<in> set (calls_since \<sigma> (snd (train c True \<sigma>))))"
proof -
  have cond: "cv_condition X = Inr (r * k < 50000 \<or> r < 500)"
    using sh by (simp add: cv_condition_2d)
  from train_trace [of c True \<sigma>] obtain main where
    tr: "trace (snd (train c True \<sigma>)) = trace (snd (pre_evaluation c True \<sigma>)) @ main"
    and main: "\<forall>ev \<in> set main. (\<exists>msg. ev = Falcon_print msg)
           \<or> (\<exists>a X' y'. ev = Fit a X' y') \<or> (\<exists>s. ev = Print_score s)"
    by blast
  show ?thesis
  proof (cases "r * k < 50000 \<or> r < 500")
    case True
    with cond have "cv_condition X = Inr True" by simp
    from pre_evaluation_cv_trace [OF d env this, of c] obtain tl where
      "trace (snd (pre_evaluation c True \<sigma>)) =
           trace \<sigma> @ [Falcon_print ''Beginning training'',
             Falcon_print ''Pre-evaluation of model performance'', Set_verbosity_level 0,
             Tab_cv_score (pipeline (self \<sigma>)) X y (task (self \<sigma>))] @ tl"
      "set tl \<subseteq> {Set_verbosity_level old}" by blast
    with tr main True show ?thesis
      by (auto simp: calls_since_def)
  next
    case False
    with cond have "cv_condition X = Inr False" by simp
    from pre_evaluation_split_trace [OF d env this, of c] obtain tl where
      "trace (snd (pre_evaluation c True \<sigma>)) =
           trace \<sigma> @ [Falcon_print ''Beginning training'',
             Falcon_print ''Pre-evaluation of model performance'', Set_verbosity_level 0,
             Train_test_split X y (1 / 4)] @ tl"
      "\<forall>ev \<in> set tl. ev = Set_verbosity_level old
                 \<or> (\<exists>a. ev = Deepcopy a (length (heap \<sigma>)))
                 \<or> (\<exists>X' y'. ev = Fit (length (heap \<sigma>)) X' y')
                 \<or> (\<exists>X'. ev = Predict (length (heap \<sigma>)) X')
                 \<or> (\<exists>a b t. ev = Calculate_model_score a b t)" by blast
    with tr main False show ?thesis
      by (auto simp: calls_since_def)
  qed
qed

theorem train_pre_eval_branch_witness:
  "Tab_cv_score 0 \<lparr>shape = [400, 3], flat = replicate 1200 (Num 0)\<rparr>
       \<lparr>shape = [400], flat = replicate 400 (Num 0)\<rparr> ''tabular_classification''
     \<in> set (calls_since small_state (snd (train example_collab True small_state)))
   \<and> Train_test_split \<lparr>shape = [500, 100], flat = replicate 50000 (Num 0)\<rparr>
       \<lparr>shape = [500], flat = replicate 500 (Num 0)\<rparr> (1 / 4)
     \<in> set (calls_since big_state (snd (train example_collab True big_state)))"
  using train_pre_eval_branch [of small_state _ _ _ 400 3 1 example_collab]
    train_pre_eval_branch [of big_state _ _ _ 500 100 1 example_collab]
  by (simp add: small_state_def big_state_def)

section \<open>Pre-evaluation: what it leaves behind\<close>

text \<open>
  When \<^verbatim>\<open>int\<close> rejects the verbosity variable, or \<open>X\<close> has fewer than two dimensions,
  the block raises before it reaches a branch.
\<close>

lemma pre_evaluation_env_error:
  assumes "level_of (verbosity \<sigma>) = Inl e"
  shows "pre_evaluation c True \<sigma> =
    (Inl e, \<sigma>\<lparr>trace := trace \<sigma> @ [Falcon_print ''Beginning training'',
                 Falcon_print ''Pre-evaluation of model performance'']\<rparr>)"
  using assms
  by (simp add: pre_evaluation_def falcon_print_def getenv_verbosity_def progs)

lemma pre_evaluation_cond_error:
  assumes "level_of (verbosity \<sigma>) = Inr old"
      and "cv_condition (fst (data (self \<sigma>))) = Inl e"
  shows "pre_evaluation c True \<sigma> =
    (Inl e, \<sigma>\<lparr>verbosity := IntText 0,
               trace := trace \<sigma> @ [Falcon_print ''Beginning training'',
                 Falcon_print ''Pre-evaluation of model performance'',
                 Set_verbosity_level 0]\<rparr>)"
  using assms
  by (simp add: pre_evaluation_def falcon_print_def getenv_verbosity_def set_verbosity_level_def
      progs)

lemma pre_evaluation_frame:
  "self (snd (pre_evaluation c pre_eval \<sigma>)) = self \<sigma>
   \<and> (\<forall>a < length (heap \<sigma>). heap (snd (pre_evaluation c pre_eval \<sigma>)) ! a = heap \<sigma> ! a)"
proof (cases pre_eval)
  case False
  then show ?thesis by (simp add: pre_evaluation_False)
next
  case True
  show ?thesis
  proof (cases "level_of (verbosity \<sigma>)")
    case (Inl e)
    then show ?thesis using True by (simp add: pre_evaluation_env_error)
  next
    case (Inr old)
    show ?thesis
    proof (cases "cv_condition (fst (data (self \<sigma>)))")
      case (Inl e)
      then show ?thesis using True Inr by (simp add: pre_evaluation_cond_error)
    next
      case small: (Inr small)
      let ?\<sigma>1 = "\<sigma>\<lparr>verbosity := IntText 0,
               trace := trace \<sigma> @ [Falcon_print ''Beginning training'',
                 Falcon_print ''Pre-evaluation of model performance'',
                 Set_verbosity_level 0]\<rparr>"
      let ?b = "(if small then cv_branch c else split_branch c) ?\<sigma>1"
      have fr: "self (snd ?b) = self \<sigma> \<and> (\<forall>a < length (heap \<sigma>). heap (snd ?b) ! a = heap \<sigma> ! a)"
        using cv_branch_frame [of c ?\<sigma>1] split_branch_frame [of c ?\<sigma>1] by simp
      show ?thesis
      proof (cases ?b)
        case (Pair res \<sigma>2)
        then show ?thesis
          using True fr pre_evaluation_True [OF Inr small, of c] by (cases res) auto
      qed
    qed
  qed
qed

lemma pre_evaluation_result:
  "fst (pre_evaluation c pre_eval \<sigma>) = Inr avg_score \<Longrightarrow> (avg_score \<noteq> None) = pre_eval"
proof (cases pre_eval)
  case False
  assume "fst (pre_evaluation c pre_eval \<sigma>) = Inr avg_score"
  with False show ?thesis by (simp add: pre_evaluation_False)
next
  case True
  assume r: "fst (pre_evaluation c pre_eval \<sigma>) = Inr avg_score"
  show ?thesis
  proof (cases "level_of (verbosity \<sigma>)")
    case (Inl e)
    then show ?thesis using True r by (simp add: pre_evaluation_env_error)
  next
    case (Inr old)
    show ?thesis
    proof (cases "cv_condition (fst (data (self \<sigma>)))")
      case (Inl e)
      then show ?thesis using True Inr r by (simp add: pre_evaluation_cond_error)
    next
      case small: (Inr small)
      show ?thesis
        using True r pre_evaluation_True [OF Inr small, of c]
        by (auto split: prod.splits sum.splits)
    qed
  qed
qed

lemma pre_evaluation_trace:
  "\<exists>cs. trace (snd (pre_evaluation c pre_eval \<sigma>)) = trace \<sigma> @ cs
     \<and> (\<forall>s. Print_score s \<notin> set cs)
     \<and> (pipeline (self \<sigma>) < length (heap \<sigma>) \<longrightarrow>
          (\<forall>X' y'. Fit (pipeline (self \<sigma>)) X' y' \<notin> set cs))"
proof (cases pre_eval)
  case False
  then show ?thesis by (simp add: pre_evaluation_False)
next
  case True
  obtain X y cmask where d: "data (self \<sigma>) = (X, y, cmask)" by (cases "data (self \<sigma>)")
  show ?thesis
  proof (cases "level_of (verbosity \<sigma>)")
    case (Inl e)
    then show ?thesis using True by (simp add: pre_evaluation_env_error)
  next
    case (Inr old)
    show ?thesis
    proof (cases "cv_condition X")
      case (Inl e)
      then show ?thesis using True Inr d by (simp add: pre_evaluation_cond_error)
    next
      case small: (Inr small)
      show ?thesis
      proof (cases small)
        case True
        with small pre_evaluation_cv_trace [OF d Inr, of c] \<open>pre_eval\<close> show ?thesis
          by auto
      next
        case False
        with small pre_evaluation_split_trace [OF d Inr, of c] \<open>pre_eval\<close> show ?thesis
          by fastforce
      qed
    qed
  qed
qed



section \<open>The main training phase\<close>

text \<open>
  What the pre-evaluation block returns when it returns: the mean of the cross-validation
  scores in the first arm, the score of the single split in the second.
\<close>

lemma pre_evaluation_score:
  assumes d: "data (self \<sigma>) = (X, y, cmask)"
      and pe: "fst (pre_evaluation c True \<sigma>) = Inr avg_score"
  shows "\<exists>small. cv_condition X = Inr small
     \<and> (if small
         then \<exists>score. tab_cv_score c (heap \<sigma> ! pipeline (self \<sigma>)) X y (task (self \<sigma>)) = Inr score
                \<and> avg_score = Some (np_mean c score)
         else \<exists>X_train X_test y_train y_test P pred s.
                train_test_split c X y (1 / 4) = Inr (X_train, X_test, y_train, y_test)
                \<and> pipe_fit c (heap \<sigma> ! pipeline (self \<sigma>)) X_train y_train = Inr P
                \<and> pipe_predict c P X_test = Inr pred
                \<and> calculate_model_score c y_test pred (task (self \<sigma>)) = Inr s
                \<and> avg_score = Some s)"
proof (cases "level_of (verbosity \<sigma>)")
  case (Inl e)
  with pe show ?thesis by (simp add: pre_evaluation_env_error)
next
  case (Inr old)
  show ?thesis
  proof (cases "cv_condition (fst (data (self \<sigma>)))")
    case (Inl e)
    with pe Inr show ?thesis by (simp add: pre_evaluation_cond_error)
  next
    case small: (Inr small)
    show ?thesis
    proof (cases small)
      case True
      with pe d small show ?thesis
        by (auto simp: pre_evaluation_True [OF Inr small] cv_branch_run split: sum.splits)
    next
      case False
      with pe d small show ?thesis
        by (auto simp: pre_evaluation_True [OF Inr small] split_branch_run
            split: sum.splits prod.splits)
    qed
  qed
qed

text \<open>
  C6. For either value of \<^verbatim>\<open>pre_eval\<close>, once the pre-evaluation block has not raised
  (it cannot when \<^verbatim>\<open>pre_eval\<close> is false), \<^verbatim>\<open>train\<close> calls \<^verbatim>\<open>fit\<close> on the manager's own
  pipeline with the full prepared \<open>(X, y)\<close>, and the block has produced an estimate exactly
  when \<^verbatim>\<open>pre_eval\<close> is true. When that fit returns, \<^verbatim>\<open>train\<close> returns the manager itself,
  the pipeline object holds the fit's result, and what \<^verbatim>\<open>train\<close> does after the block is
  exactly: announce the main phase, fit, announce the end, and print the estimate if
  there is one. So a score line is printed exactly when \<^verbatim>\<open>pre_eval\<close> is true, and the
  score printed is the estimate and no other value. With \<^verbatim>\<open>pre_eval\<close> true the estimate
  is the mean of the cross-validation scores of the manager's pipeline on \<open>(X, y)\<close>, or
  the score of the copy's predictions on the held-out part.
\<close>

theorem train_always_fits:
  assumes d: "data (self \<sigma>) = (X, y, cmask)"
      and pe: "fst (pre_evaluation c pre_eval \<sigma>) = Inr avg_score"
  shows "Fit (pipeline (self \<sigma>)) X y \<in> set (calls_since \<sigma> (snd (train c pre_eval \<sigma>)))
       \<and> (avg_score \<noteq> None) = pre_eval
       \<and> (\<forall>P. pipe_fit c (heap (snd (pre_evaluation c pre_eval \<sigma>)) ! pipeline (self \<sigma>)) X y = Inr P
             \<longrightarrow> fst (train c pre_eval \<sigma>) = Inr (self \<sigma>)
               \<and> self (snd (train c pre_eval \<sigma>)) = self \<sigma>
               \<and> heap (snd (train c pre_eval \<sigma>)) =
                   (heap (snd (pre_evaluation c pre_eval \<sigma>)))[pipeline (self \<sigma>) := P]
               \<and> ((\<exists>s. Print_score s \<in> set (calls_since \<sigma> (snd (train c pre_eval \<sigma>))))
                    = pre_eval)
               \<and> (\<forall>s. (Print_score s \<in> set (calls_since \<sigma> (snd (train c pre_eval \<sigma>))))
                    = (avg_score = Some s))
               \<and> calls_since (snd (pre_evaluation c pre_eval \<sigma>)) (snd (train c pre_eval \<sigma>)) =
                   [Falcon_print ''Beginning the main training phase'',
                    Fit (pipeline (self \<sigma>)) X y,
                    Falcon_print ''Finished training'']
                   @ (case avg_score of Some s \<Rightarrow> [Print_score s] | None \<Rightarrow> []))
       \<and> (pre_eval \<longrightarrow>
            (\<exists>small. cv_condition X = Inr small
              \<and> (if small
                  then \<exists>score. tab_cv_score c (heap \<sigma> ! pipeline (self \<sigma>)) X y (task (self \<sigma>))
                                  = Inr score
                         \<and> avg_score = Some (np_mean c score)
                  else \<exists>X_train X_test y_train y_test P pred s.
                         train_test_split c X y (1 / 4) = Inr (X_train, X_test, y_train, y_test)
                         \<and> pipe_fit c (heap \<sigma> ! pipeline (self \<sigma>)) X_train y_train = Inr P
                         \<and> pipe_predict c P X_test = Inr pred
                         \<and> calculate_model_score c y_test pred (task (self \<sigma>)) = Inr s
                         \<and> avg_score = Some s)))"
proof -
  obtain \<sigma>1 where pre: "pre_evaluation c pre_eval \<sigma> = (Inr avg_score, \<sigma>1)"
    using pe by (cases "pre_evaluation c pre_eval \<sigma>") simp
  have self_pre: "self \<sigma>1 = self \<sigma>"
    using pre_evaluation_frame [of c pre_eval \<sigma>] pre by simp
  from pre_evaluation_trace [of c pre_eval \<sigma>] pre obtain cs where
    cs: "trace \<sigma>1 = trace \<sigma> @ cs" and nops: "\<forall>s. Print_score s \<notin> set cs" by auto
  have some: "(avg_score \<noteq> None) = pre_eval"
    using pre_evaluation_result [OF pe] .
  have fit_called: "Fit (pipeline (self \<sigma>)) X y \<in> set (calls_since \<sigma> (snd (train c pre_eval \<sigma>)))"
    using d self_pre cs
    by (simp add: train_run pre calls_since_def split: sum.splits option.splits)
  have rest: "\<forall>P. pipe_fit c (heap \<sigma>1 ! pipeline (self \<sigma>)) X y = Inr P
             \<longrightarrow> fst (train c pre_eval \<sigma>) = Inr (self \<sigma>)
               \<and> self (snd (train c pre_eval \<sigma>)) = self \<sigma>
               \<and> heap (snd (train c pre_eval \<sigma>)) = (heap \<sigma>1)[pipeline (self \<sigma>) := P]
               \<and> ((\<exists>s. Print_score s \<in> set (calls_since \<sigma> (snd (train c pre_eval \<sigma>))))
                    = pre_eval)
               \<and> (\<forall>s. (Print_score s \<in> set (calls_since \<sigma> (snd (train c pre_eval \<sigma>))))
                    = (avg_score = Some s))
               \<and> calls_since \<sigma>1 (snd (train c pre_eval \<sigma>)) =
                   [Falcon_print ''Beginning the main training phase'',
                    Fit (pipeline (self \<sigma>)) X y,
                    Falcon_print ''Finished training'']
                   @ (case avg_score of Some s \<Rightarrow> [Print_score s] | None \<Rightarrow> [])"
    using d self_pre cs nops some
    by (auto simp: train_run pre calls_since_def split: sum.splits option.splits)
  have est: "pre_eval \<longrightarrow>
            (\<exists>small. cv_condition X = Inr small
              \<and> (if small
                  then \<exists>score. tab_cv_score c (heap \<sigma> ! pipeline (self \<sigma>)) X y (task (self \<sigma>))
                                  = Inr score
                         \<and> avg_score = Some (np_mean c score)
                  else \<exists>X_train X_test y_train y_test P pred s.
                         train_test_split c X y (1 / 4) = Inr (X_train, X_test, y_train, y_test)
                         \<and> pipe_fit c (heap \<sigma> ! pipeline (self \<sigma>)) X_train y_train = Inr P
                         \<and> pipe_predict c P X_test = Inr pred
                         \<and> calculate_model_score c y_test pred (task (self \<sigma>)) = Inr s
                         \<and> avg_score = Some s))"
    using pre_evaluation_score [OF d, of c avg_score] pe by (cases pre_eval) simp_all
  from fit_called some rest est pre show ?thesis by simp
qed

theorem train_always_fits_witness:
  "Fit 0 \<lparr>shape = [400, 3], flat = replicate 1200 (Num 0)\<rparr>
       \<lparr>shape = [400], flat = replicate 400 (Num 0)\<rparr>
     \<in> set (calls_since small_state (snd (train example_collab True small_state)))
   \<and> fst (train example_collab True small_state) = Inr (self small_state)
   \<and> (\<exists>s. Print_score s \<in> set (calls_since small_state (snd (train example_collab True small_state))))
   \<and> Print_score (3 / 4)
        \<in> set (calls_since small_state (snd (train example_collab True small_state)))
   \<and> Print_score 0
        \<notin> set (calls_since small_state (snd (train example_collab True small_state)))
   \<and> tab_cv_score example_collab (heap small_state ! pipeline (self small_state))
        \<lparr>shape = [400, 3], flat = replicate 1200 (Num 0)\<rparr>
        \<lparr>shape = [400], flat = replicate 400 (Num 0)\<rparr> (task (self small_state)) = Inr [1, 1 / 2]
   \<and> np_mean example_collab [1, 1 / 2] = 3 / 4
   \<and> fst (train example_collab False small_state) = Inr (self small_state)
   \<and> \<not> (\<exists>s. Print_score s
           \<in> set (calls_since small_state (snd (train example_collab False small_state))))"
proof -
  let ?X = "\<lparr>shape = [400, 3], flat = replicate 1200 (Num 0)\<rparr>"
  let ?y = "\<lparr>shape = [400], flat = replicate 400 (Num 0)\<rparr>"
  have d: "data (self small_state) = (?X, ?y, [False, False, False])"
    by (simp add: small_state_def)
  have env: "level_of (verbosity small_state) = Inr 1" by (simp add: small_state_def)
  have cond: "cv_condition (fst (data (self small_state))) = Inr True"
    by (simp add: d cv_condition_2d [of _ 400 3])
  have pe: "fst (pre_evaluation example_collab True small_state) = Inr (Some (3 / 4))"
    unfolding pre_evaluation_True [OF env cond]
    by (simp add: cv_branch_def progs small_state_def example_collab_def)
  have pf: "fst (pre_evaluation example_collab False small_state) = Inr None"
    by (simp add: pre_evaluation_False)
  have ft: "\<And>P. pipe_fit example_collab P ?X ?y = Inr True"
    by (simp add: example_collab_def)
  have p0: "pipeline (self small_state) = 0" by (simp add: small_state_def)
  have sc: "tab_cv_score example_collab (heap small_state ! pipeline (self small_state))
        ?X ?y (task (self small_state)) = Inr [1, 1 / 2]"
    "np_mean example_collab [1, 1 / 2] = 3 / 4"
    by (simp_all add: example_collab_def)
  note t = train_always_fits [OF d pe] and f = train_always_fits [OF d pf]
  have a: "Fit 0 ?X ?y \<in> set (calls_since small_state (snd (train example_collab True small_state)))"
    using t by (simp add: p0)
  have b: "fst (train example_collab True small_state) = Inr (self small_state)
      \<and> (\<exists>s. Print_score s
            \<in> set (calls_since small_state (snd (train example_collab True small_state))))
      \<and> (\<forall>s. (Print_score s
            \<in> set (calls_since small_state (snd (train example_collab True small_state))))
            = (Some (3 / 4) = Some s))"
    using t ft by blast
  have c: "fst (train example_collab False small_state) = Inr (self small_state)
      \<and> \<not> (\<exists>s. Print_score s
            \<in> set (calls_since small_state (snd (train example_collab False small_state))))"
    using f ft by blast
  have b1: "Print_score (3 / 4)
        \<in> set (calls_since small_state (snd (train example_collab True small_state)))"
    using b by blast
  have "Some (3 / 4 :: real) \<noteq> Some 0" by simp
  with b have b2: "Print_score 0
        \<notin> set (calls_since small_state (snd (train example_collab True small_state)))"
    by blast
  from a b b1 b2 c sc show ?thesis by blast
qed

section \<open>The verbosity level when pre-evaluation fails\<close>

text \<open>
  When the pre-evaluation block returns, the level is back at the value read at its
  start, and the rest of \<^verbatim>\<open>train\<close> does not touch it.
\<close>

lemma pre_evaluation_restores_verbosity:
  assumes env: "level_of (verbosity \<sigma>) = Inr old"
      and ok: "fst (pre_evaluation c True \<sigma>) = Inr avg_score"
  shows "verbosity (snd (pre_evaluation c True \<sigma>)) = IntText old"
    and "verbosity (snd (train c True \<sigma>)) = IntText old"
proof -
  show v: "verbosity (snd (pre_evaluation c True \<sigma>)) = IntText old"
  proof (cases "cv_condition (fst (data (self \<sigma>)))")
    case (Inl e)
    with ok env show ?thesis by (simp add: pre_evaluation_cond_error)
  next
    case (Inr small)
    with ok show ?thesis
      by (auto simp: pre_evaluation_True [OF env Inr] split: prod.splits sum.splits)
  qed
  obtain \<sigma>1 where pre: "pre_evaluation c True \<sigma> = (Inr avg_score, \<sigma>1)"
    using ok by (cases "pre_evaluation c True \<sigma>") simp
  with v have "verbosity \<sigma>1 = IntText old" by simp
  then show "verbosity (snd (train c True \<sigma>)) = IntText old"
    by (simp add: train_run pre split: sum.splits option.splits)
qed

text \<open>
  C2. The claim is that the verbosity level is restored on the failure path too. The
  code has no \<^verbatim>\<open>try\<close>/\<^verbatim>\<open>finally\<close> around the block (a comment there reads
  \<^verbatim>\<open>TODO make `no_print` context manager\<close>): when the cross-validation scorer raises, or
  the fit of the copied pipeline raises, the exception leaves \<^verbatim>\<open>train\<close> before
  \<^verbatim>\<open>set_verbosity_level(old_verbosity_level)\<close> runs, and the level stays at 0 whatever it
  was before.
\<close>

theorem train_failure_leaves_verbosity_lowered:
  assumes d: "data (self \<sigma>) = (X, y, cmask)"
      and sh: "shape X = [r, k]"
      and env: "level_of (verbosity \<sigma>) = Inr old"
      and fails:
        "if r * k < 50000 \<or> r < 500
         then tab_cv_score c (heap \<sigma> ! pipeline (self \<sigma>)) X y (task (self \<sigma>)) = Inl e
         else (\<exists>X_train X_test y_train y_test.
                 train_test_split c X y (1 / 4) = Inr (X_train, X_test, y_train, y_test)
                 \<and> pipe_fit c (heap \<sigma> ! pipeline (self \<sigma>)) X_train y_train = Inl e)"
  shows "fst (train c True \<sigma>) = Inl e \<and> verbosity (snd (train c True \<sigma>)) = IntText 0"
proof -
  have cond: "cv_condition (fst (data (self \<sigma>))) = Inr (r * k < 50000 \<or> r < 500)"
    using d sh by (simp add: cv_condition_2d)
  show ?thesis
  proof (cases "r * k < 50000 \<or> r < 500")
    case True
    with fails have "tab_cv_score c (heap \<sigma> ! pipeline (self \<sigma>)) X y (task (self \<sigma>)) = Inl e"
      by simp
    with True d show ?thesis
      by (simp add: train_run pre_evaluation_True [OF env cond] cv_branch_run)
  next
    case False
    with fails obtain X_train X_test y_train y_test where
      "train_test_split c X y (1 / 4) = Inr (X_train, X_test, y_train, y_test)"
      "pipe_fit c (heap \<sigma> ! pipeline (self \<sigma>)) X_train y_train = Inl e"
      by auto
    with False d show ?thesis
      by (simp add: train_run pre_evaluation_True [OF env cond] split_branch_run)
  qed
qed

theorem train_failure_leaves_verbosity_lowered_witness:
  "level_of (verbosity small_state) = Inr 1
   \<and> fst (train failing_collab True small_state) = Inl (Raised ''FitFailure'')
   \<and> verbosity (snd (train failing_collab True small_state)) = IntText 0
   \<and> level_of (verbosity big_state) = Inr 1
   \<and> fst (train failing_collab True big_state) = Inl (Raised ''FitFailure'')
   \<and> verbosity (snd (train failing_collab True big_state)) = IntText 0"
proof -
  have d: "data (self small_state) =
      (\<lparr>shape = [400, 3], flat = replicate 1200 (Num 0)\<rparr>,
       \<lparr>shape = [400], flat = replicate 400 (Num 0)\<rparr>, [False, False, False])"
    by (simp add: small_state_def)
  have env: "level_of (verbosity small_state) = Inr 1" by (simp add: small_state_def)
  have db: "data (self big_state) =
      (\<lparr>shape = [500, 100], flat = replicate 50000 (Num 0)\<rparr>,
       \<lparr>shape = [500], flat = replicate 500 (Num 0)\<rparr>, replicate 100 False)"
    by (simp add: big_state_def)
  have envb: "level_of (verbosity big_state) = Inr 1" by (simp add: big_state_def)
  have s: "fst (train failing_collab True small_state) = Inl (Raised ''FitFailure'')
      \<and> verbosity (snd (train failing_collab True small_state)) = IntText 0"
    by (rule train_failure_leaves_verbosity_lowered [OF d _ env, of 400 3])
       (simp_all add: failing_collab_def)
  have b: "fst (train failing_collab True big_state) = Inl (Raised ''FitFailure'')
      \<and> verbosity (snd (train failing_collab True big_state)) = IntText 0"
    by (rule train_failure_leaves_verbosity_lowered [OF db _ envb, of 500 100])
       (simp_all add: failing_collab_def example_collab_def example_split_def Let_def)
  from s b env envb show ?thesis by simp
qed

section \<open>Data preparation and evaluation\<close>

text \<open>
  What \<^verbatim>\<open>_prepare_data\<close> returns and which calls it makes; \<^verbatim>\<open>evaluate\<close> unfolded; and the
  fact that neither depends on the calls recorded before.
\<close>

lemma prepare_data_Inr:
  assumes "fst (prepare_data c d training \<sigma>) = Inr (X, y, cmask)"
  shows "\<exists>X0 y0 y1. clean_data_split c X0 y0 = Inr (X, y1)
           \<and> y = (if length (shape y1) = 2 then ravel y1 else y1)
           \<and> (\<not> training \<longrightarrow> cmask = [])"
  using assms
  by (fastforce simp: prepare_data_def progs split: dataset.splits sum.splits prod.splits if_splits)

lemma prepare_data_frame:
  "\<exists>cs. snd (prepare_data c d training \<sigma>) = \<sigma>\<lparr>trace := trace \<sigma> @ cs\<rparr>
     \<and> (\<forall>ev \<in> set cs. (\<exists>p. ev = Read_data p) \<or> (\<exists>t f g. ev = Split_features t f g)
           \<or> (\<exists>a b. ev = Clean_data_split a b) \<or> (training \<and> (\<exists>a. ev = Get_cat_mask a)))"
  by (auto simp: prepare_data_def progs split: dataset.splits sum.splits prod.splits if_splits)

lemma prepare_data_trace_irrelevant:
  "prepare_data c d training (\<sigma>\<lparr>trace := t\<rparr>) =
     (fst (prepare_data c d training \<sigma>),
      \<sigma>\<lparr>trace := t @ calls_since \<sigma> (snd (prepare_data c d training \<sigma>))\<rparr>)"
  by (auto simp: prepare_data_def progs calls_since_def
      split: dataset.splits sum.splits prod.splits if_splits)

lemma evaluate_run:
  "evaluate c d \<sigma> =
    (case prepare_data c d False
            (\<sigma>\<lparr>trace := trace \<sigma> @ [Print ''The evaluation report will be provided here'']\<rparr>) of
       (Inl e, \<sigma>1) \<Rightarrow> (Inl e, \<sigma>1)
     | (Inr (X, y, cmask), \<sigma>1) \<Rightarrow>
         (case pipe_predict c (heap \<sigma>1 ! pipeline (self \<sigma>1)) X of
            Inl e \<Rightarrow> (Inl e, \<sigma>1\<lparr>trace := trace \<sigma>1 @ [Predict (pipeline (self \<sigma>1)) X]\<rparr>)
          | Inr y_hat \<Rightarrow>
              (Inr (),
               \<sigma>1\<lparr>trace := trace \<sigma>1 @ [Predict (pipeline (self \<sigma>1)) X,
                  if task (self \<sigma>1) = ''tabular_classification''
                  then Print_classification_report y y_hat
                  else Print_regression_report y y_hat]\<rparr>)))"
  by (simp add: evaluate_def predict_def progs split: sum.splits prod.splits)

lemma evaluate_frame:
  "\<exists>cs. snd (evaluate c d \<sigma>) = \<sigma>\<lparr>trace := trace \<sigma> @ cs\<rparr>
     \<and> (\<forall>X. Get_cat_mask X \<notin> set cs)"
proof -
  let ?\<sigma>0 = "\<sigma>\<lparr>trace := trace \<sigma> @ [Print ''The evaluation report will be provided here'']\<rparr>"
  from prepare_data_frame [of c d False ?\<sigma>0] obtain cs where
    cs: "snd (prepare_data c d False ?\<sigma>0) = ?\<sigma>0\<lparr>trace := trace ?\<sigma>0 @ cs\<rparr>"
    and evs: "\<forall>X. Get_cat_mask X \<notin> set cs"
    by auto
  show ?thesis
  proof (cases "prepare_data c d False ?\<sigma>0")
    case (Pair res \<sigma>1)
    with cs have s1: "\<sigma>1 = ?\<sigma>0\<lparr>trace := trace ?\<sigma>0 @ cs\<rparr>" by simp
    show ?thesis
      using Pair evs unfolding evaluate_run s1
      by (auto split: sum.splits prod.splits)
  qed
qed

lemma evaluate_trace_irrelevant:
  "evaluate c d (\<sigma>\<lparr>trace := t\<rparr>) =
     (fst (evaluate c d \<sigma>), \<sigma>\<lparr>trace := t @ calls_since \<sigma> (snd (evaluate c d \<sigma>))\<rparr>)"
proof -
  let ?p = "Print ''The evaluation report will be provided here''"
  let ?\<sigma>0 = "\<sigma>\<lparr>trace := trace \<sigma> @ [?p]\<rparr>"
  define r where "r = fst (prepare_data c d False ?\<sigma>0)"
  from prepare_data_frame [of c d False ?\<sigma>0] obtain cs where
    cs: "snd (prepare_data c d False ?\<sigma>0) = ?\<sigma>0\<lparr>trace := trace ?\<sigma>0 @ cs\<rparr>"
    by auto
  have t: "prepare_data c d False (\<sigma>\<lparr>trace := t @ [?p]\<rparr>) = (r, \<sigma>\<lparr>trace := t @ ?p # cs\<rparr>)"
    using prepare_data_trace_irrelevant [where c = c and d = d and training = False
        and \<sigma> = ?\<sigma>0 and t = "t @ [?p]"] cs
    by (simp add: calls_since_def r_def)
  have o: "prepare_data c d False ?\<sigma>0 = (r, \<sigma>\<lparr>trace := trace \<sigma> @ ?p # cs\<rparr>)"
    using cs by (simp add: prod_eq_iff r_def)
  show ?thesis
    by (cases r) (auto simp: evaluate_run t o calls_since_def split: sum.splits prod.splits)
qed

lemma small_table_split:
  "spec_split_features sel small_table None None =
     Inr (\<lparr>shape = [2, 2], flat = [Num 1, Num 2, Num 4, Num 5]\<rparr>,
          \<lparr>shape = [2], flat = [Num 3, Num 6]\<rparr>)"
  by (simp add: spec_split_features_def small_table_def other_columns_def last_column_def
      numeral_2_eq_2)

lemma column_prepare:
  "fst (prepare_data column_collab (Table small_table) True small_state) =
     Inr (\<lparr>shape = [2, 2], flat = [Num 1, Num 2, Num 4, Num 5]\<rparr>,
          \<lparr>shape = [2], flat = [Num 3, Num 6]\<rparr>, [False, False])"
  by (simp add: prepare_data_def progs column_collab_def example_collab_def small_state_def
      small_table_split ravel_def numeral_2_eq_2)

lemma example_prepare:
  assumes "features (self \<sigma>) = None" "target (self \<sigma>) = None"
  shows "fst (prepare_data example_collab (Table small_table) False \<sigma>) =
     Inr (\<lparr>shape = [2, 2], flat = [Num 1, Num 2, Num 4, Num 5]\<rparr>,
          \<lparr>shape = [2], flat = [Num 3, Num 6]\<rparr>, [])"
  using assms
  by (simp add: prepare_data_def progs example_collab_def small_table_split)

text \<open>
  C9. When \<^verbatim>\<open>_prepare_data\<close> returns \<open>(X, y, mask)\<close>, \<open>y\<close> is the target \<open>y1\<close> that
  \<^verbatim>\<open>clean_data_split\<close> handed back, flattened by \<^verbatim>\<open>ravel\<close> if \<open>y1\<close> is 2-D and untouched
  otherwise, with the same cells in the same order. So if \<open>y1\<close> is 1-D or 2-D (a column
  of a table is nothing else), \<open>y\<close> is 1-D; and a single column of shape \<open>(n, 1)\<close> becomes
  a vector of shape \<open>(n)\<close>.
\<close>

theorem prepare_data_flattens_target:
  assumes "fst (prepare_data c d training \<sigma>) = Inr (X, y, cmask)"
  shows "\<exists>X0 y0 y1. clean_data_split c X0 y0 = Inr (X, y1)
           \<and> y = (if length (shape y1) = 2 then ravel y1 else y1)
           \<and> flat y = flat y1
           \<and> (length (shape y1) = 1 \<or> length (shape y1) = 2 \<longrightarrow> length (shape y) = 1)
           \<and> (\<forall>n. shape y1 = [n, 1] \<longrightarrow> shape y = [n])"
proof -
  from prepare_data_Inr [OF assms] obtain X0 y0 y1 where
    cl: "clean_data_split c X0 y0 = Inr (X, y1)" and
    y: "y = (if length (shape y1) = 2 then ravel y1 else y1)"
    by blast
  have "flat y = flat y1" using y by (simp add: ravel_def)
  moreover have "length (shape y1) = 1 \<or> length (shape y1) = 2 \<longrightarrow> length (shape y) = 1"
    using y by (auto simp: ravel_def)
  moreover have "\<forall>n. shape y1 = [n, 1] \<longrightarrow> shape y = [n]"
    using y by (simp add: ravel_def)
  ultimately show ?thesis using cl y by blast
qed

theorem prepare_data_flattens_target_witness:
  "fst (prepare_data column_collab (Table small_table) True small_state) =
     Inr (\<lparr>shape = [2, 2], flat = [Num 1, Num 2, Num 4, Num 5]\<rparr>,
          \<lparr>shape = [2], flat = [Num 3, Num 6]\<rparr>, [False, False])
   \<and> (\<exists>X0 y0 y1.
         clean_data_split column_collab X0 y0 =
           Inr (\<lparr>shape = [2, 2], flat = [Num 1, Num 2, Num 4, Num 5]\<rparr>, y1)
         \<and> shape y1 = [2, 1]
         \<and> \<lparr>shape = [2], flat = [Num 3, Num 6]\<rparr> = ravel y1)"
proof -
  from prepare_data_flattens_target [OF column_prepare] obtain X0 y0 y1 where
    cl: "clean_data_split column_collab X0 y0 =
           Inr (\<lparr>shape = [2, 2], flat = [Num 1, Num 2, Num 4, Num 5]\<rparr>, y1)"
    and y: "\<lparr>shape = [2], flat = [Num 3, Num 6]\<rparr> = (if length (shape y1) = 2 then ravel y1 else y1)"
    and fl: "flat \<lparr>shape = [2], flat = [Num 3, Num 6]\<rparr> = flat y1"
    by blast
  from cl have sh: "shape y1 = [length (flat y1), 1]"
    by (auto simp: column_collab_def)
  moreover from fl have "length (flat y1) = 2" by (simp add: fl [symmetric])
  ultimately have "shape y1 = [2, 1]" by simp
  with cl y column_prepare show ?thesis by auto
qed

text \<open>
  C7. With \<^verbatim>\<open>training=False\<close>, \<^verbatim>\<open>_prepare_data\<close> returns the empty mask whenever it
  returns. \<^verbatim>\<open>evaluate\<close> never calls \<^verbatim>\<open>get_cat_mask\<close>, and it changes neither the manager
  (so the mask stored at training time stays) nor any pipeline object; a second
  \<^verbatim>\<open>evaluate\<close> on the same data therefore has the same outcome and makes the same calls
  as the first.
\<close>

theorem evaluate_does_not_recompute_mask:
  "(\<forall>X y cmask. fst (prepare_data c d False \<sigma>) = Inr (X, y, cmask) \<longrightarrow> cmask = [])
   \<and> (\<forall>X. Get_cat_mask X \<notin> set (calls_since \<sigma> (snd (evaluate c d \<sigma>))))
   \<and> self (snd (evaluate c d \<sigma>)) = self \<sigma>
   \<and> heap (snd (evaluate c d \<sigma>)) = heap \<sigma>
   \<and> fst (evaluate c d (snd (evaluate c d \<sigma>))) = fst (evaluate c d \<sigma>)
   \<and> calls_since (snd (evaluate c d \<sigma>)) (snd (evaluate c d (snd (evaluate c d \<sigma>))))
       = calls_since \<sigma> (snd (evaluate c d \<sigma>))"
proof -
  have m: "\<forall>X y cmask. fst (prepare_data c d False \<sigma>) = Inr (X, y, cmask) \<longrightarrow> cmask = []"
    using prepare_data_Inr [of c d False \<sigma>] by blast
  from evaluate_frame [of c d \<sigma>] obtain cs where
    cs: "snd (evaluate c d \<sigma>) = \<sigma>\<lparr>trace := trace \<sigma> @ cs\<rparr>"
    and evs: "\<forall>X. Get_cat_mask X \<notin> set cs" by blast
  have calls: "calls_since \<sigma> (snd (evaluate c d \<sigma>)) = cs"
    by (simp add: cs calls_since_def)
  have again: "evaluate c d (snd (evaluate c d \<sigma>)) =
      (fst (evaluate c d \<sigma>), \<sigma>\<lparr>trace := (trace \<sigma> @ cs) @ cs\<rparr>)"
    unfolding cs evaluate_trace_irrelevant by (simp add: cs calls_since_def)
  have c5: "fst (evaluate c d (snd (evaluate c d \<sigma>))) = fst (evaluate c d \<sigma>)"
    by (simp add: again)
  have c6: "calls_since (snd (evaluate c d \<sigma>)) (snd (evaluate c d (snd (evaluate c d \<sigma>))))
       = calls_since \<sigma> (snd (evaluate c d \<sigma>))"
    unfolding again calls by (simp add: cs calls_since_def)
  from m evs calls c5 c6 show ?thesis by (simp add: cs)
qed

theorem evaluate_does_not_recompute_mask_witness:
  "fst (prepare_data example_collab (Table small_table) False (small_state\<lparr>heap := [True]\<rparr>)) =
     Inr (\<lparr>shape = [2, 2], flat = [Num 1, Num 2, Num 4, Num 5]\<rparr>,
          \<lparr>shape = [2], flat = [Num 3, Num 6]\<rparr>, [])
   \<and> (\<forall>X. Get_cat_mask X \<notin> set (calls_since (small_state\<lparr>heap := [True]\<rparr>)
         (snd (evaluate example_collab (Table small_table) (small_state\<lparr>heap := [True]\<rparr>)))))
   \<and> snd (snd (data (self
         (snd (evaluate example_collab (Table small_table) (small_state\<lparr>heap := [True]\<rparr>))))))
       = [False, False, False]
   \<and> fst (evaluate example_collab (Table small_table)
         (snd (evaluate example_collab (Table small_table) (small_state\<lparr>heap := [True]\<rparr>))))
       = fst (evaluate example_collab (Table small_table) (small_state\<lparr>heap := [True]\<rparr>))"
proof -
  have p: "fst (prepare_data example_collab (Table small_table) False (small_state\<lparr>heap := [True]\<rparr>)) =
     Inr (\<lparr>shape = [2, 2], flat = [Num 1, Num 2, Num 4, Num 5]\<rparr>,
          \<lparr>shape = [2], flat = [Num 3, Num 6]\<rparr>, [])"
    by (rule example_prepare) (simp_all add: small_state_def)
  have m: "snd (snd (data (self (small_state\<lparr>heap := [True]\<rparr>)))) = [False, False, False]"
    by (simp add: small_state_def)
  from evaluate_does_not_recompute_mask
    [of example_collab "Table small_table" "small_state\<lparr>heap := [True]\<rparr>"] p m
  show ?thesis by simp
qed

text \<open>
  C10. When data preparation and \<^verbatim>\<open>predict\<close> return, \<^verbatim>\<open>evaluate\<close> returns normally for
  every task string, and the last thing it does is print one report on \<open>(y, y_hat)\<close>: the
  classification report if the task is \<^verbatim>\<open>"tabular_classification"\<close>, the regression
  report for any other string. A classification report is printed exactly for that one
  task string, a regression report exactly for all the others; no task string raises.
\<close>

theorem evaluate_dispatch:
  assumes prep: "fst (prepare_data c d False \<sigma>) = Inr (X, y, cmask)"
      and pred: "pipe_predict c (heap \<sigma> ! pipeline (self \<sigma>)) X = Inr y_hat"
  shows "fst (evaluate c d \<sigma>) = Inr ()
       \<and> last (trace (snd (evaluate c d \<sigma>))) =
           (if task (self \<sigma>) = ''tabular_classification''
            then Print_classification_report y y_hat
            else Print_regression_report y y_hat)
       \<and> ((\<exists>a b. Print_classification_report a b \<in> set (calls_since \<sigma> (snd (evaluate c d \<sigma>))))
            = (task (self \<sigma>) = ''tabular_classification''))
       \<and> ((\<exists>a b. Print_regression_report a b \<in> set (calls_since \<sigma> (snd (evaluate c d \<sigma>))))
            = (task (self \<sigma>) \<noteq> ''tabular_classification''))"
proof -
  let ?p = "Print ''The evaluation report will be provided here''"
  let ?\<sigma>0 = "\<sigma>\<lparr>trace := trace \<sigma> @ [?p]\<rparr>"
  from prepare_data_frame [of c d False \<sigma>] obtain cs where
    cs: "snd (prepare_data c d False \<sigma>) = \<sigma>\<lparr>trace := trace \<sigma> @ cs\<rparr>"
    and evs: "\<forall>ev \<in> set cs. (\<exists>p. ev = Read_data p) \<or> (\<exists>t f g. ev = Split_features t f g)
           \<or> (\<exists>a b. ev = Clean_data_split a b)"
    by auto
  have p0: "prepare_data c d False ?\<sigma>0 =
      (Inr (X, y, cmask), \<sigma>\<lparr>trace := (trace \<sigma> @ [?p]) @ cs\<rparr>)"
    using prepare_data_trace_irrelevant [where c = c and d = d and training = False
        and \<sigma> = \<sigma> and t = "trace \<sigma> @ [?p]"] prep cs
    by (simp add: calls_since_def)
  have nocls: "\<forall>a b. Print_classification_report a b \<notin> set cs"
    using evs by fastforce
  have noreg: "\<forall>a b. Print_regression_report a b \<notin> set cs"
    using evs by fastforce
  show ?thesis
    using pred nocls noreg by (simp add: evaluate_run p0 calls_since_def)
qed

theorem evaluate_dispatch_witness:
  "fst (evaluate example_collab (Table small_table) (small_state\<lparr>heap := [True]\<rparr>)) = Inr ()
   \<and> last (trace (snd (evaluate example_collab (Table small_table) (small_state\<lparr>heap := [True]\<rparr>))))
       = Print_classification_report \<lparr>shape = [2], flat = [Num 3, Num 6]\<rparr>
           \<lparr>shape = [2], flat = [Num 0, Num 0]\<rparr>
   \<and> fst (evaluate example_collab (Table small_table)
         (small_state\<lparr>heap := [True], self := (self small_state)\<lparr>task := ''tabular_clustering''\<rparr>\<rparr>))
       = Inr ()
   \<and> last (trace (snd (evaluate example_collab (Table small_table)
         (small_state\<lparr>heap := [True], self := (self small_state)\<lparr>task := ''tabular_clustering''\<rparr>\<rparr>))))
       = Print_regression_report \<lparr>shape = [2], flat = [Num 3, Num 6]\<rparr>
           \<lparr>shape = [2], flat = [Num 0, Num 0]\<rparr>"
proof -
  let ?X = "\<lparr>shape = [2, 2], flat = [Num 1, Num 2, Num 4, Num 5]\<rparr>"
  let ?yh = "\<lparr>shape = [2], flat = [Num 0, Num 0]\<rparr>"
  let ?c = "small_state\<lparr>heap := [True]\<rparr>"
  let ?u = "small_state\<lparr>heap := [True], self := (self small_state)\<lparr>task := ''tabular_clustering''\<rparr>\<rparr>"
  have pc: "fst (prepare_data example_collab (Table small_table) False ?c) =
     Inr (?X, \<lparr>shape = [2], flat = [Num 3, Num 6]\<rparr>, [])"
    by (rule example_prepare) (simp_all add: small_state_def)
  have pu: "fst (prepare_data example_collab (Table small_table) False ?u) =
     Inr (?X, \<lparr>shape = [2], flat = [Num 3, Num 6]\<rparr>, [])"
    by (rule example_prepare) (simp_all add: small_state_def)
  have qc: "pipe_predict example_collab (heap ?c ! pipeline (self ?c)) ?X = Inr ?yh"
    by (simp add: example_collab_def example_predict_def small_state_def numeral_2_eq_2)
  have qu: "pipe_predict example_collab (heap ?u ! pipeline (self ?u)) ?X = Inr ?yh"
    by (simp add: example_collab_def example_predict_def small_state_def numeral_2_eq_2)
  have tc: "task (self ?c) = ''tabular_classification''" by (simp add: small_state_def)
  have tu: "task (self ?u) \<noteq> ''tabular_classification''" by simp
  from evaluate_dispatch [OF pc qc] evaluate_dispatch [OF pu qu] tc tu
  show ?thesis by simp
qed

section \<open>The configuration tables\<close>

text \<open>
  C5. In both tables the profiles \<^verbatim>\<open>SuperLearner.mini\<close>, \<^verbatim>\<open>.mid\<close>, \<^verbatim>\<open>.large\<close> and
  \<^verbatim>\<open>.xlarge\<close> name the learner \<^verbatim>\<open>SuperLearner\<close> with \<^verbatim>\<open>cv\<close> 10, 5, 3 and 3 and with
  \<^verbatim>\<open>base_estimators\<close> the \<^verbatim>\<open>mini\<close>, \<^verbatim>\<open>mid\<close>, \<^verbatim>\<open>large\<close> and \<^verbatim>\<open>x-large\<close> list of
  \<^verbatim>\<open>_default_estimators\<close> for that table's task type. Looking up \<^verbatim>\<open>SuperLearner.mid\<close> for
  \<^verbatim>\<open>tabular_classification\<close> succeeds, and the configuration found has learner
  \<^verbatim>\<open>SuperLearner\<close>, \<^verbatim>\<open>cv\<close> 5 and the \<^verbatim>\<open>mid\<close> list for classification.
\<close>

theorem tiered_super_learner_profiles:
  "item_at (TABULAR_CLASSIFICATION_CONFIGURATIONS de)
      [''SuperLearner.mini'', ''extra_pipeline_options''] =
     Inr (VDict [(''learner'', VClass SuperLearner),
                 (''learner_kwargs'',
                    VDict [(''cv'', VInt 10),
                           (''base_estimators'', VEstimators (de ''tabular_classification'' ''mini''))])])
   \<and> item_at (TABULAR_CLASSIFICATION_CONFIGURATIONS de)
      [''SuperLearner.mid'', ''extra_pipeline_options''] =
     Inr (VDict [(''learner'', VClass SuperLearner),
                 (''learner_kwargs'',
                    VDict [(''cv'', VInt 5),
                           (''base_estimators'', VEstimators (de ''tabular_classification'' ''mid''))])])
   \<and> item_at (TABULAR_CLASSIFICATION_CONFIGURATIONS de)
      [''SuperLearner.large'', ''extra_pipeline_options''] =
     Inr (VDict [(''learner'', VClass SuperLearner),
                 (''learner_kwargs'',
                    VDict [(''cv'', VInt 3),
                           (''base_estimators'', VEstimators (de ''tabular_classification'' ''large''))])])
   \<and> item_at (TABULAR_CLASSIFICATION_CONFIGURATIONS de)
      [''SuperLearner.xlarge'', ''extra_pipeline_options''] =
     Inr (VDict [(''learner'', VClass SuperLearner),
                 (''learner_kwargs'',
                    VDict [(''cv'', VInt 3),
                           (''base_estimators'', VEstimators (de ''tabular_classification'' ''x-large''))])])
   \<and> item_at (TABULAR_REGRESSION_CONFIGURATIONS de)
      [''SuperLearner.mini'', ''extra_pipeline_options''] =
     Inr (VDict [(''learner'', VClass SuperLearner),
                 (''learner_kwargs'',
                    VDict [(''cv'', VInt 10),
                           (''base_estimators'', VEstimators (de ''tabular_regression'' ''mini''))])])
   \<and> item_at (TABULAR_REGRESSION_CONFIGURATIONS de)
      [''SuperLearner.mid'', ''extra_pipeline_options''] =
     Inr (VDict [(''learner'', VClass SuperLearner),
                 (''learner_kwargs'',
                    VDict [(''cv'', VInt 5),
                           (''base_estimators'', VEstimators (de ''tabular_regression'' ''mid''))])])
   \<and> item_at (TABULAR_REGRESSION_CONFIGURATIONS de)
      [''SuperLearner.large'', ''extra_pipeline_options''] =
     Inr (VDict [(''learner'', VClass SuperLearner),
                 (''learner_kwargs'',
                    VDict [(''cv'', VInt 3),
                           (''base_estimators'', VEstimators (de ''tabular_regression'' ''large''))])])
   \<and> item_at (TABULAR_REGRESSION_CONFIGURATIONS de)
      [''SuperLearner.xlarge'', ''extra_pipeline_options''] =
     Inr (VDict [(''learner'', VClass SuperLearner),
                 (''learner_kwargs'',
                    VDict [(''cv'', VInt 3),
                           (''base_estimators'', VEstimators (de ''tabular_regression'' ''x-large''))])])
   \<and> (case resolve de ''SuperLearner.mid'' ''tabular_classification'' of
         Inl e \<Rightarrow> False
       | Inr cfg \<Rightarrow>
           item_at cfg [''extra_pipeline_options'', ''learner''] = Inr (VClass SuperLearner)
           \<and> item_at cfg [''extra_pipeline_options'', ''learner_kwargs'', ''cv''] = Inr (VInt 5)
           \<and> item_at cfg [''extra_pipeline_options'', ''learner_kwargs'', ''base_estimators'']
               = Inr (VEstimators (de ''tabular_classification'' ''mid'')))"
  by (simp add: TABULAR_CLASSIFICATION_CONFIGURATIONS_def TABULAR_REGRESSION_CONFIGURATIONS_def
      resolve_def)

section \<open>Construction: options and the features/target split\<close>

lemma effective_options_pipeline_field:
  "effective_pipeline_options (m\<lparr>pipeline := n\<rparr>) po ex = effective_pipeline_options m po ex"
  by (simp add: effective_pipeline_options_def default_pipeline_options_def
      split: option.splits)

lemma init_mismatch:
  "(fs = None) \<noteq> (tg = None) \<Longrightarrow>
   init c np tsk d pc po ex fs tg \<sigma> =
     (Inl ConfigurationError,
      \<sigma>\<lparr>trace := trace \<sigma> @
        [Falcon_print (init_message tsk)]\<rparr>)"
  by (simp add: init_def TaskManager_init_def falcon_print_def progs)

lemma init_run:
  assumes "(fs = None) = (tg = None)"
  shows "init c np tsk d pc po ex fs tg \<sigma> =
    (case prepare_data c d True
            (\<sigma>\<lparr>trace := trace \<sigma> @ [Falcon_print (init_message tsk)],
               self := (self \<sigma>)\<lparr>task := tsk, features := fs, target := tg\<rparr>\<rparr>) of
       (Inl e, \<sigma>1) \<Rightarrow> (Inl e, \<sigma>1)
     | (Inr prepared, \<sigma>1) \<Rightarrow>
         (case np (case pc of None \<Rightarrow> default_pipeline | Some k \<Rightarrow> k) tsk
                 (effective_pipeline_options ((self \<sigma>1)\<lparr>data := prepared\<rparr>) po ex) of
            Inl e \<Rightarrow> (Inl e, \<sigma>1\<lparr>self := (self \<sigma>1)\<lparr>data := prepared\<rparr>\<rparr>)
          | Inr obj \<Rightarrow>
              (Inr ((self \<sigma>1)\<lparr>data := prepared, pipeline := length (heap \<sigma>1)\<rparr>),
               \<sigma>1\<lparr>self := (self \<sigma>1)\<lparr>data := prepared, pipeline := length (heap \<sigma>1)\<rparr>,
                  heap := heap \<sigma>1 @ [obj]\<rparr>)))"
  using assms
  by (simp add: init_def TaskManager_init_def falcon_print_def progs
      split: sum.splits prod.splits)

lemma rows_length: "length (rows r k xs) = r"
  by (induction r arbitrary: xs) simp_all

lemma rows_nth: "i < r \<Longrightarrow> rows r k xs ! i = take k (drop (i * k) xs)"
proof (induction r arbitrary: xs i)
  case 0
  then show ?case by simp
next
  case (Suc r)
  show ?case
  proof (cases i)
    case 0
    then show ?thesis by simp
  next
    case (Suc j)
    with Suc.prems have "j < r" by simp
    from Suc.IH [OF this, of "drop k xs"] Suc show ?thesis
      by (simp add: add.commute)
  qed
qed

lemma concat_uniform_nth:
  "\<forall>ys \<in> set yss. length ys = k \<Longrightarrow> i < length yss \<Longrightarrow> j < k \<Longrightarrow>
   concat yss ! (i * k + j) = yss ! i ! j"
proof (induction yss arbitrary: i)
  case Nil
  then show ?case by simp
next
  case (Cons ys yss)
  show ?case
  proof (cases i)
    case 0
    with Cons.prems show ?thesis by (simp add: nth_append)
  next
    case (Suc i')
    with Cons.prems have "concat yss ! (i' * k + j) = yss ! i' ! j"
      by (intro Cons.IH) simp_all
    with Suc Cons.prems show ?thesis by (simp add: nth_append)
  qed
qed

lemma last_column_cells:
  assumes "shape a = [r, Suc k]" "length (flat a) = r * Suc k" "i < r"
  shows "shape (last_column a) = [r]"
    and "length (flat (last_column a)) = r"
    and "flat (last_column a) ! i = flat a ! (i * Suc k + k)"
proof -
  show "shape (last_column a) = [r]" "length (flat (last_column a)) = r"
    using assms by (simp_all add: last_column_def rows_length)
  have "Suc i * Suc k \<le> r * Suc k" using assms(3) by (intro mult_le_mono1) simp
  then have len: "i * Suc k + Suc k \<le> length (flat a)" using assms(2) by simp
  then have l: "length (take (Suc k) (drop (i * Suc k) (flat a))) = Suc k" by simp
  have "last (take (Suc k) (drop (i * Suc k) (flat a))) =
        take (Suc k) (drop (i * Suc k) (flat a)) ! k"
    using l by (subst last_conv_nth) auto
  also have "\<dots> = flat a ! (i * Suc k + k)" using len by simp
  finally show "flat (last_column a) ! i = flat a ! (i * Suc k + k)"
    using assms by (simp add: last_column_def rows_length rows_nth)
qed

lemma other_columns_cells:
  assumes "shape a = [r, Suc k]" "length (flat a) = r * Suc k" "i < r" "j < k"
  shows "shape (other_columns a) = [r, k]"
    and "flat (other_columns a) ! (i * k + j) = flat a ! (i * Suc k + j)"
proof -
  show "shape (other_columns a) = [r, k]" using assms by (simp add: other_columns_def)
  let ?rs = "rows r (Suc k) (flat a)"
  have row_len: "\<forall>n < r. length (?rs ! n) = Suc k"
  proof (intro allI impI)
    fix n assume n: "n < r"
    then have "Suc n * Suc k \<le> r * Suc k" by (intro mult_le_mono1) simp
    then have "n * Suc k + Suc k \<le> length (flat a)" using assms(2) by simp
    then show "length (?rs ! n) = Suc k" using n by (simp add: rows_nth)
  qed
  have uni: "\<forall>ys \<in> set (map butlast ?rs). length ys = k"
    using row_len by (auto simp: in_set_conv_nth rows_length)
  have "concat (map butlast ?rs) ! (i * k + j) = map butlast ?rs ! i ! j"
    using uni assms(3,4) by (intro concat_uniform_nth) (simp_all add: rows_length)
  also have "\<dots> = butlast (?rs ! i) ! j" using assms(3) by (simp add: rows_length)
  also have "\<dots> = ?rs ! i ! j" using row_len assms(3,4) by (simp add: nth_butlast)
  also have "\<dots> = flat a ! (i * Suc k + j)"
  proof -
    have "Suc i * Suc k \<le> r * Suc k" using assms(3) by (intro mult_le_mono1) simp
    then have "i * Suc k + Suc k \<le> length (flat a)" using assms(2) by simp
    then show ?thesis using assms(3,4) by (simp add: rows_nth)
  qed
  finally show "flat (other_columns a) ! (i * k + j) = flat a ! (i * Suc k + j)"
    using assms(1) by (simp add: other_columns_def)
qed

lemma prepare_data_default_split:
  assumes "fst (prepare_data c d training \<sigma>) = Inr (X, y, cmask)"
      and "features (self \<sigma>) = None" "target (self \<sigma>) = None"
      and "split_features c = spec_split_features sel"
      and "(case d of Path p \<Rightarrow> read_data c p = Inr tbl | Table t \<Rightarrow> t = tbl)"
  shows "length (shape (np_asarray tbl)) = 2
       \<and> Clean_data_split (other_columns (np_asarray tbl)) (last_column (np_asarray tbl))
            \<in> set (calls_since \<sigma> (snd (prepare_data c d training \<sigma>)))
       \<and> (\<exists>y1. clean_data_split c (other_columns (np_asarray tbl)) (last_column (np_asarray tbl))
                  = Inr (X, y1)
              \<and> y = (if length (shape y1) = 2 then ravel y1 else y1))"
  using assms
  by (cases d)
     (auto simp: prepare_data_def progs spec_split_features_def calls_since_def
        split: sum.splits prod.splits if_splits)

lemma init_returns:
  assumes "fst (init c np tsk d pc po ex None None \<sigma>) = Inr m"
  shows "\<exists>X y cmask.
      fst (prepare_data c d True
             (\<sigma>\<lparr>trace := trace \<sigma> @ [Falcon_print (init_message tsk)],
                self := (self \<sigma>)\<lparr>task := tsk, features := None, target := None\<rparr>\<rparr>))
        = Inr (X, y, cmask)
      \<and> trace (snd (init c np tsk d pc po ex None None \<sigma>)) =
          trace (snd (prepare_data c d True
             (\<sigma>\<lparr>trace := trace \<sigma> @ [Falcon_print (init_message tsk)],
                self := (self \<sigma>)\<lparr>task := tsk, features := None, target := None\<rparr>\<rparr>)))
      \<and> task m = tsk \<and> features m = None \<and> target m = None \<and> data m = (X, y, cmask)"
proof -
  let ?\<sigma>0 = "\<sigma>\<lparr>trace := trace \<sigma> @ [Falcon_print (init_message tsk)],
                self := (self \<sigma>)\<lparr>task := tsk, features := None, target := None\<rparr>\<rparr>"
  have n: "((None :: column list option) = None) = ((None :: column option) = None)" by simp
  from prepare_data_frame [of c d True ?\<sigma>0] obtain cs where
    cs: "snd (prepare_data c d True ?\<sigma>0) = ?\<sigma>0\<lparr>trace := trace ?\<sigma>0 @ cs\<rparr>" by blast
  show ?thesis
  proof (cases "prepare_data c d True ?\<sigma>0")
    case (Pair res \<sigma>1)
    with cs have s1: "\<sigma>1 = ?\<sigma>0\<lparr>trace := trace ?\<sigma>0 @ cs\<rparr>" by simp
    show ?thesis
      using assms Pair unfolding init_run [OF n] s1
      by (auto split: sum.splits prod.splits)
  qed
qed

lemma small_table_columns:
  "other_columns (np_asarray small_table) = \<lparr>shape = [2, 2], flat = [Num 1, Num 2, Num 4, Num 5]\<rparr>"
  "last_column (np_asarray small_table) = \<lparr>shape = [2], flat = [Num 3, Num 6]\<rparr>"
  by (simp_all add: small_table_def other_columns_def last_column_def numeral_2_eq_2)

lemma example_init:
  "fst (init example_collab example_construct ''tabular_classification'' (Table small_table)
          None None None None None small_state) =
     Inr \<lparr>task = ''tabular_classification'', features = None, target = None,
          data = (\<lparr>shape = [2, 2], flat = [Num 1, Num 2, Num 4, Num 5]\<rparr>,
                  \<lparr>shape = [2], flat = [Num 3, Num 6]\<rparr>, [False, False]),
          pipeline = 1\<rparr>"
proof -
  have n: "((None :: column list option) = None) = ((None :: column option) = None)" by simp
  show ?thesis
    unfolding init_run [OF n]
    by (simp add: prepare_data_def progs example_collab_def small_table_split
        example_construct_def small_state_def numeral_2_eq_2)
qed

text \<open>
  C4. If \<^verbatim>\<open>pipeline_options\<close> is given, the effective options are exactly those, whatever
  \<^verbatim>\<open>extra_pipeline_options\<close> is. If only \<^verbatim>\<open>extra_pipeline_options\<close> is given, the keys of
  the effective options are \<^verbatim>\<open>mask\<close> and the keys of the extra options; the mask entry
  is the one computed at preparation unless the extra options bring their own, and every
  other extra entry is present with its value. These are the options the pipeline is
  constructed with.
\<close>

theorem effective_options_override_or_merge:
  "effective_pipeline_options m (Some options) extra = options
   \<and> effective_pipeline_options m None None = default_pipeline_options m
   \<and> dom (effective_pipeline_options m None (Some ex)) = insert ''mask'' (dom ex)
   \<and> (''mask'' \<notin> dom ex \<longrightarrow>
        effective_pipeline_options m None (Some ex) ''mask'' = Some (VBools (snd (snd (data m)))))
   \<and> (\<forall>k v. ex k = Some v \<and> k \<noteq> ''mask'' \<longrightarrow>
        effective_pipeline_options m None (Some ex) k = Some v)
   \<and> (\<forall>m'. fst (init c np tsk d pc po extra fs tg \<sigma>) = Inr m' \<longrightarrow>
        np (case pc of None \<Rightarrow> default_pipeline | Some k \<Rightarrow> k) tsk
           (effective_pipeline_options m' po extra)
          = Inr (heap (snd (init c np tsk d pc po extra fs tg \<sigma>)) ! pipeline m'))"
proof -
  have a: "effective_pipeline_options m (Some options) extra = options"
    by (simp add: effective_pipeline_options_def)
  have b: "effective_pipeline_options m None None = default_pipeline_options m"
    by (simp add: effective_pipeline_options_def)
  have c: "dom (effective_pipeline_options m None (Some ex)) = insert ''mask'' (dom ex)"
    by (auto simp: effective_pipeline_options_def default_pipeline_options_def)
  have d: "''mask'' \<notin> dom ex \<longrightarrow>
        effective_pipeline_options m None (Some ex) ''mask'' = Some (VBools (snd (snd (data m))))"
    by (auto simp: effective_pipeline_options_def default_pipeline_options_def map_add_def
        split: option.splits)
  have e: "\<forall>k v. ex k = Some v \<and> k \<noteq> ''mask'' \<longrightarrow>
        effective_pipeline_options m None (Some ex) k = Some v"
    by (simp add: effective_pipeline_options_def map_add_def)
  have f: "\<forall>m'. fst (init c np tsk d pc po extra fs tg \<sigma>) = Inr m' \<longrightarrow>
        np (case pc of None \<Rightarrow> default_pipeline | Some k \<Rightarrow> k) tsk
           (effective_pipeline_options m' po extra)
          = Inr (heap (snd (init c np tsk d pc po extra fs tg \<sigma>)) ! pipeline m')"
  proof (cases "(fs = None) = (tg = None)")
    case True
    show ?thesis
      by (auto simp: init_run [OF True] effective_options_pipeline_field
          split: sum.splits prod.splits)
  next
    case False
    then show ?thesis by (simp add: init_mismatch)
  qed
  from a b c d e f show ?thesis by blast
qed

theorem effective_options_override_or_merge_witness:
  "effective_pipeline_options (self small_state)
      (Some [''learner'' \<mapsto> VClass PlainLearner])
      (Some [''learner'' \<mapsto> VClass SuperLearner, ''learner_kwargs'' \<mapsto> VDict []])
     = [''learner'' \<mapsto> (VClass PlainLearner :: unit pyval)]
   \<and> effective_pipeline_options (self small_state) None
        (Some [''learner'' \<mapsto> VClass SuperLearner, ''learner_kwargs'' \<mapsto> VDict []]) ''mask''
     = Some (VBools [False, False, False] :: unit pyval)
   \<and> effective_pipeline_options (self small_state) None
        (Some [''learner'' \<mapsto> VClass SuperLearner, ''learner_kwargs'' \<mapsto> VDict []]) ''learner''
     = Some (VClass SuperLearner :: unit pyval)"
proof -
  let ?ex = "[''learner'' \<mapsto> (VClass SuperLearner :: unit pyval), ''learner_kwargs'' \<mapsto> VDict []]"
  note t = effective_options_override_or_merge
    [where m = "self small_state" and options = "[''learner'' \<mapsto> (VClass PlainLearner :: unit pyval)]"
       and extra = "Some ?ex" and ex = ?ex and c = example_collab and np = example_construct
       and tsk = "''tabular_classification''" and d = "Table small_table" and pc = None
       and po = None and fs = None and tg = None and \<sigma> = small_state]
  have a: "effective_pipeline_options (self small_state)
      (Some [''learner'' \<mapsto> VClass PlainLearner]) (Some ?ex)
     = [''learner'' \<mapsto> (VClass PlainLearner :: unit pyval)]"
    using t by (rule conjunct1)
  have nm: "''mask'' \<notin> dom ?ex" by simp
  have b: "effective_pipeline_options (self small_state) None (Some ?ex) ''mask''
     = Some (VBools (snd (snd (data (self small_state)))))"
    using t nm by blast
  have l: "?ex ''learner'' = Some (VClass SuperLearner) \<and> ''learner'' \<noteq> ''mask''" by simp
  have c: "effective_pipeline_options (self small_state) None (Some ?ex) ''learner''
     = Some (VClass SuperLearner)"
    using t l by blast
  have m: "snd (snd (data (self small_state))) = [False, False, False]"
    by (simp add: small_state_def)
  from a b c m show ?thesis by simp
qed

text \<open>
  C8. Construction fails with \<^verbatim>\<open>ConfigurationError\<close> whenever exactly one of
  \<^verbatim>\<open>features\<close> and \<^verbatim>\<open>target\<close> is given. When neither is given and construction
  returns, the table was 2-D and was split into its last column (the target) and its
  other columns (the features) before cleaning; the manager's data are what cleaning
  made of that pair.
\<close>

theorem init_features_target:
  "((fs = None) \<noteq> (tg = None) \<longrightarrow>
      fst (init c np tsk d pc po ex fs tg \<sigma>) = Inl ConfigurationError)
   \<and> (\<forall>m. split_features c = spec_split_features sel
          \<and> (case d of Path p \<Rightarrow> read_data c p = Inr tbl | Table t \<Rightarrow> t = tbl)
          \<and> fst (init c np tsk d pc po ex None None \<sigma>) = Inr m
        \<longrightarrow> features m = None \<and> target m = None
          \<and> length (shape (np_asarray tbl)) = 2
          \<and> Clean_data_split (other_columns (np_asarray tbl)) (last_column (np_asarray tbl))
               \<in> set (calls_since \<sigma> (snd (init c np tsk d pc po ex None None \<sigma>)))
          \<and> (\<exists>y1. clean_data_split c (other_columns (np_asarray tbl)) (last_column (np_asarray tbl))
                     = Inr (fst (data m), y1)
                 \<and> fst (snd (data m)) = (if length (shape y1) = 2 then ravel y1 else y1)))"
proof -
  have a: "(fs = None) \<noteq> (tg = None) \<longrightarrow>
      fst (init c np tsk d pc po ex fs tg \<sigma>) = Inl ConfigurationError"
    by (simp add: init_mismatch)
  have b: "features m = None \<and> target m = None
          \<and> length (shape (np_asarray tbl)) = 2
          \<and> Clean_data_split (other_columns (np_asarray tbl)) (last_column (np_asarray tbl))
               \<in> set (calls_since \<sigma> (snd (init c np tsk d pc po ex None None \<sigma>)))
          \<and> (\<exists>y1. clean_data_split c (other_columns (np_asarray tbl)) (last_column (np_asarray tbl))
                     = Inr (fst (data m), y1)
                 \<and> fst (snd (data m)) = (if length (shape y1) = 2 then ravel y1 else y1))"
    if sf: "split_features c = spec_split_features sel"
      and ld: "(case d of Path p \<Rightarrow> read_data c p = Inr tbl | Table t \<Rightarrow> t = tbl)"
      and ok: "fst (init c np tsk d pc po ex None None \<sigma>) = Inr m" for m
  proof -
    let ?\<sigma>0 = "\<sigma>\<lparr>trace := trace \<sigma> @ [Falcon_print (init_message tsk)],
                self := (self \<sigma>)\<lparr>task := tsk, features := None, target := None\<rparr>\<rparr>"
    from init_returns [OF ok] obtain X y cmask where
      p: "fst (prepare_data c d True ?\<sigma>0) = Inr (X, y, cmask)"
      and tr: "trace (snd (init c np tsk d pc po ex None None \<sigma>)) =
          trace (snd (prepare_data c d True ?\<sigma>0))"
      and m: "features m = None" "target m = None" "data m = (X, y, cmask)"
      by blast
    have f0: "features (self ?\<sigma>0) = None" "target (self ?\<sigma>0) = None" by simp_all
    note ds = prepare_data_default_split [OF p f0 sf ld]
    from ds have "Clean_data_split (other_columns (np_asarray tbl)) (last_column (np_asarray tbl))
        \<in> set (drop (Suc (length (trace \<sigma>))) (trace (snd (prepare_data c d True ?\<sigma>0))))"
      by (simp add: calls_since_def)
    moreover have "set (drop (Suc (length (trace \<sigma>))) (trace (snd (prepare_data c d True ?\<sigma>0))))
        \<subseteq> set (drop (length (trace \<sigma>)) (trace (snd (prepare_data c d True ?\<sigma>0))))"
      by (rule set_drop_subset_set_drop) simp
    ultimately have "Clean_data_split (other_columns (np_asarray tbl)) (last_column (np_asarray tbl))
        \<in> set (calls_since \<sigma> (snd (init c np tsk d pc po ex None None \<sigma>)))"
      unfolding calls_since_def tr by blast
    with ds m show ?thesis by simp
  qed
  from a b show ?thesis by blast
qed

theorem init_features_target_witness:
  "fst (init example_collab example_construct ''tabular_classification'' (Table small_table)
          None None None (Some [ColIndex 0, ColIndex 1]) None small_state)
     = Inl ConfigurationError
   \<and> fst (init example_collab example_construct ''tabular_classification'' (Table small_table)
          None None None None (Some (ColIndex 2)) small_state)
     = Inl ConfigurationError
   \<and> fst (init example_collab example_construct ''tabular_classification'' (Table small_table)
          None None None None None small_state) =
     Inr \<lparr>task = ''tabular_classification'', features = None, target = None,
          data = (\<lparr>shape = [2, 2], flat = [Num 1, Num 2, Num 4, Num 5]\<rparr>,
                  \<lparr>shape = [2], flat = [Num 3, Num 6]\<rparr>, [False, False]),
          pipeline = 1\<rparr>
   \<and> Clean_data_split \<lparr>shape = [2, 2], flat = [Num 1, Num 2, Num 4, Num 5]\<rparr>
        \<lparr>shape = [2], flat = [Num 3, Num 6]\<rparr>
      \<in> set (calls_since small_state
           (snd (init example_collab example_construct ''tabular_classification''
                   (Table small_table) None None None None None small_state)))"
proof -
  let ?sel = "\<lambda>(tbl :: table) (f :: column list) (t :: column).
                (Inl (Raised ''NotImplementedError'') :: error + ndarray \<times> ndarray)"
  have a: "fst (init example_collab example_construct ''tabular_classification''
          (Table small_table) None None None (Some [ColIndex 0, ColIndex 1]) None small_state)
     = Inl ConfigurationError"
    using init_features_target
      [where fs = "Some [ColIndex 0, ColIndex 1]" and tg = None and c = example_collab
         and np = example_construct and tsk = "''tabular_classification''"
         and d = "Table small_table" and pc = None and po = None and ex = None
         and \<sigma> = small_state and sel = ?sel and tbl = small_table]
    by simp
  have b: "fst (init example_collab example_construct ''tabular_classification''
          (Table small_table) None None None None (Some (ColIndex 2)) small_state)
     = Inl ConfigurationError"
    using init_features_target
      [where fs = None and tg = "Some (ColIndex 2)" and c = example_collab
         and np = example_construct and tsk = "''tabular_classification''"
         and d = "Table small_table" and pc = None and po = None and ex = None
         and \<sigma> = small_state and sel = ?sel and tbl = small_table]
    by simp
  have sf: "split_features example_collab = spec_split_features ?sel"
    by (simp add: example_collab_def)
  have c: "Clean_data_split (other_columns (np_asarray small_table))
        (last_column (np_asarray small_table))
      \<in> set (calls_since small_state
           (snd (init example_collab example_construct ''tabular_classification''
                   (Table small_table) None None None None None small_state)))"
    using init_features_target
      [where fs = None and tg = None and c = example_collab
         and np = example_construct and tsk = "''tabular_classification''"
         and d = "Table small_table" and pc = None and po = None and ex = None
         and \<sigma> = small_state and sel = ?sel and tbl = small_table]
      sf example_init
    by simp
  from a b c example_init show ?thesis by (simp add: small_table_columns)
qed

end
